theory Spec2Isabelle
  imports Complex_Main "HOL-Library.AList" "HOL-Library.Char_ord" "HOL-Library.List_Lexorder"
    "HOL-Library.Product_Lexorder"
begin

section \<open>Python values used by the classifier\<close>

text \<open>
  The exceptions that the modelled code can raise. \<open>ValueError\<close> is raised by explicit
  \<^verbatim>\<open>raise\<close> statements; the others are raised by the Python runtime on a missing
  dictionary key, on subscripting \<^verbatim>\<open>None\<close>, on a missing attribute and on an index
  out of range. \<open>InvalidArgumentError\<close> is TensorFlow's error for an index outside a
  tensor's shape.
\<close>

datatype error =
    ValueError
  | KeyError
  | TypeError
  | AttributeError string
  | IndexError
  | InvalidArgumentError

text \<open>Sequencing of computations that may raise: the first exception is propagated.\<close>

definition and_then :: "error + 'a \<Rightarrow> ('a \<Rightarrow> error + 'b) \<Rightarrow> error + 'b" where
  "and_then m f = (case m of Inl e \<Rightarrow> Inl e | Inr x \<Rightarrow> f x)"

text \<open>
  A Python \<^verbatim>\<open>dict\<close> is an association list with distinct keys in insertion order:
  \<^verbatim>\<open>d[k] = v\<close> is \<^const>\<open>AList.update\<close> (an existing key keeps its position), and
  \<^verbatim>\<open>d[k]\<close> raises \<open>KeyError\<close> on a missing key.
\<close>

type_synonym ('k, 'v) dict = "('k \<times> 'v) list"

definition dict_of :: "('k \<times> 'v) list \<Rightarrow> ('k, 'v) dict" where
  \<comment> \<open>the comprehension \<^verbatim>\<open>{k: v for k, v in pairs}\<close>\<close>
  "dict_of pairs = fold (\<lambda>(k, v) d. AList.update k v d) pairs []"

definition getitem :: "('k, 'v) dict \<Rightarrow> 'k \<Rightarrow> error + 'v" where
  "getitem d k = (case map_of d k of None \<Rightarrow> Inl KeyError | Some v \<Rightarrow> Inr v)"

definition py_slice :: "'a list \<Rightarrow> int \<Rightarrow> int \<Rightarrow> 'a list" where
  \<comment> \<open>\<^verbatim>\<open>xs[i:j]\<close>: a negative bound counts from the end, both bounds are clipped\<close>
  "py_slice xs i j =
     (let n = int (length xs);
          lo = (if i < 0 then max (i + n) 0 else min i n);
          hi = (if j < 0 then max (j + n) 0 else min j n)
      in take (nat (hi - lo)) (drop (nat lo) xs))"

text \<open>\<^verbatim>\<open>enumerate(xs, start)\<close> pairs each element with its index.\<close>

definition enumerate_from :: "nat \<Rightarrow> 'a list \<Rightarrow> (nat \<times> 'a) list" where
  "enumerate_from start xs = zip [start ..< start + length xs] xs"

text \<open>
  \<^verbatim>\<open>sorted(s)\<close> of a set \<open>s\<close> given by an enumeration of its elements: the result
  does not depend on the enumeration. Strings are ordered lexicographically by
  character code, as Python orders \<^verbatim>\<open>str\<close>.
\<close>

definition sorted_set :: "'a::linorder list \<Rightarrow> 'a list" where
  "sorted_set xs = sort (remdups xs)"

section \<open>Messages, tokens and entities\<close>

record Token =
  tok_text :: string
  tok_start :: int
  tok_end :: int

text \<open>
  An entity dictionary with the keys \<^verbatim>\<open>entity\<close>, \<^verbatim>\<open>start\<close>, \<^verbatim>\<open>end\<close>,
  \<^verbatim>\<open>extractor\<close> and \<^verbatim>\<open>value\<close>. The first three keys are always present; the
  value of \<^verbatim>\<open>entity\<close> may be \<^verbatim>\<open>None\<close>. The last two keys may be absent, which is
  \<open>None\<close>.
\<close>

record entity =
  ent_entity :: "string option"
  ent_start :: int
  ent_end :: int
  ent_extractor :: "string option"
  ent_value :: "string option"

text \<open>
  A floating point number: a number, an infinity, or NaN. The comparison \<^verbatim>\<open>a <= b\<close>
  is false as soon as one side is NaN. NumPy sorts in the order of \<open>np_key\<close>: the
  numbers in ascending order between the infinities, and NaN after everything else.
\<close>

datatype float = NegInf | Num real | PosInf | NaN

fun np_key :: "float \<Rightarrow> nat \<times> real" where
  "np_key NegInf = (0, 0)"
| "np_key (Num x) = (1, x)"
| "np_key PosInf = (2, 0)"
| "np_key NaN = (3, 0)"

definition float_le :: "float \<Rightarrow> float \<Rightarrow> bool" where
  "float_le a b = (a \<noteq> NaN \<and> b \<noteq> NaN \<and> np_key a \<le> np_key b)"

text \<open>An intent prediction, the dictionary with the keys \<^verbatim>\<open>name\<close> and \<^verbatim>\<open>confidence\<close>.\<close>

record label =
  lab_name :: "string option"
  lab_confidence :: float

text \<open>
  The value stored under a message's intent key: the label text of a training example,
  or the prediction dictionary that \<^verbatim>\<open>process\<close> writes.
\<close>

datatype attr_value = Text_value string | Dict_value label

text \<open>
  A message: its text and the entries of its data dictionary that the classifier reads or
  writes (\<open>None\<close> when the key is absent). A feature matrix is kept as its shape, the
  sequence length and the feature dimension, since the code only compares shapes.
\<close>

type_synonym shape = "nat \<times> nat"

record Message =
  msg_text :: string
  msg_intent :: "attr_value option"
  msg_intent_ranking :: "label list option"
  msg_entities :: "entity list option"
  msg_tokens :: "Token list option"
  msg_text_sparse_features :: "shape option"
  msg_text_dense_features :: "shape option"
  msg_intent_sparse_features :: "shape option"
  msg_intent_dense_features :: "shape option"

datatype attribute = TEXT_ATTRIBUTE | INTENT_ATTRIBUTE

fun get_attribute :: "Message \<Rightarrow> attribute option \<Rightarrow> attr_value option" where
  \<comment> \<open>\<^verbatim>\<open>message.get(attribute)\<close>; no value is stored under the key \<^verbatim>\<open>None\<close>\<close>
  "get_attribute m None = None"
| "get_attribute m (Some TEXT_ATTRIBUTE) = Some (Text_value (msg_text m))"
| "get_attribute m (Some INTENT_ATTRIBUTE) = msg_intent m"

fun get_sparse_features :: "Message \<Rightarrow> attribute \<Rightarrow> shape option" where
  \<comment> \<open>\<^verbatim>\<open>message.get(SPARSE_FEATURE_NAMES[attribute])\<close>\<close>
  "get_sparse_features m TEXT_ATTRIBUTE = msg_text_sparse_features m"
| "get_sparse_features m INTENT_ATTRIBUTE = msg_intent_sparse_features m"

fun get_dense_features :: "Message \<Rightarrow> attribute \<Rightarrow> shape option" where
  \<comment> \<open>\<^verbatim>\<open>message.get(DENSE_FEATURE_NAMES[attribute])\<close>\<close>
  "get_dense_features m TEXT_ATTRIBUTE = msg_text_dense_features m"
| "get_dense_features m INTENT_ATTRIBUTE = msg_intent_dense_features m"

fun truthy :: "attr_value option \<Rightarrow> bool" where
  "truthy None = False"
| "truthy (Some (Text_value s)) = (s \<noteq> [])"
| "truthy (Some (Dict_value l)) = True"

text \<open>
  The training data with its three views, as the class \<^verbatim>\<open>TrainingData\<close> offers them.
\<close>

record TrainingData =
  training_examples :: "Message list"
  intent_examples :: "Message list"
  entity_examples :: "Message list"

section \<open>Converting tags to entities\<close>

text \<open>
  One iteration of the loop of \<^verbatim>\<open>_convert_tags_to_entities\<close> over
  \<^verbatim>\<open>zip(tokens, tags)\<close>. The state is the list \<^verbatim>\<open>entities\<close> and
  \<^verbatim>\<open>last_tag\<close>. \<^verbatim>\<open>entities[-1]\<close> raises \<open>IndexError\<close> on an empty list.
\<close>

fun convert_step :: "entity list \<times> string \<Rightarrow> Token \<times> string \<Rightarrow> error + entity list \<times> string" where
  "convert_step (entities, last_tag) (token, tag) =
     (if tag = ''O'' then Inr (entities, tag)
      else if last_tag \<noteq> tag then
        Inr (entities @ [\<lparr>ent_entity = Some tag, ent_start = tok_start token,
                          ent_end = tok_end token, ent_extractor = Some ''DIET'',
                          ent_value = None\<rparr>], tag)
      else if last_tag = tag then
        (if entities = [] then Inl IndexError
         else Inr (butlast entities @ [(last entities)\<lparr>ent_end := tok_end token\<rparr>], tag))
      else Inr (entities, tag))"

fun convert_loop :: "entity list \<times> string \<Rightarrow> (Token \<times> string) list \<Rightarrow> error + entity list \<times> string" where
  "convert_loop st [] = Inr st"
| "convert_loop st (p # ps) =
     (case convert_step st p of Inl e \<Rightarrow> Inl e | Inr st' \<Rightarrow> convert_loop st' ps)"

definition set_value :: "string \<Rightarrow> entity \<Rightarrow> entity" where
  \<comment> \<open>\<^verbatim>\<open>entity["value"] = text[entity["start"] : entity["end"]]\<close>\<close>
  "set_value text e = e\<lparr>ent_value := Some (py_slice text (ent_start e) (ent_end e))\<rparr>"

definition convert_tags_to_entities :: "string \<Rightarrow> Token list \<Rightarrow> string list \<Rightarrow> error + entity list" where
  "convert_tags_to_entities text tokens tags =
     (case convert_loop ([], ''O'') (zip tokens tags) of
        Inl e \<Rightarrow> Inl e
      | Inr (entities, last_tag) \<Rightarrow> Inr (map (set_value text) entities))"

section \<open>Configuration and construction\<close>

text \<open>
  The component configuration after the base class has filled in the defaults. Each
  field is the value stored under the configuration key of the same name; only the keys
  read by the modelled code are kept.
\<close>

record config =
  HIDDEN_LAYERS_SIZES_TEXT :: "int list"
  HIDDEN_LAYERS_SIZES_LABEL :: "int list"
  SHARE_HIDDEN_LAYERS :: bool
  SIMILARITY_TYPE :: string
  LOSS_TYPE :: string
  EPOCHS :: int
  BATCH_SIZES :: "int list"
  BATCH_STRATEGY :: string
  RANDOM_SEED :: "int option"
  EVAL_NUM_EPOCHS :: int
  EVAL_NUM_EXAMPLES :: int
  INTENT_CLASSIFICATION :: bool
  ENTITY_RECOGNITION :: bool
  MASKED_LM :: bool
  SPARSE_INPUT_DROPOUT :: bool

definition check_config_parameters :: "config \<Rightarrow> error + config" where
  "check_config_parameters c =
     (if SHARE_HIDDEN_LAYERS c \<and> HIDDEN_LAYERS_SIZES_TEXT c \<noteq> HIDDEN_LAYERS_SIZES_LABEL c
      then Inl ValueError
      else
        let c1 = (if SIMILARITY_TYPE c = ''auto'' then
                    (if LOSS_TYPE c = ''softmax'' then c\<lparr>SIMILARITY_TYPE := ''inner''\<rparr>
                     else if LOSS_TYPE c = ''margin'' then c\<lparr>SIMILARITY_TYPE := ''cosine''\<rparr>
                     else c)
                  else c);
            c2 = (if EVAL_NUM_EPOCHS c1 < 1 then c1\<lparr>EVAL_NUM_EPOCHS := EPOCHS c1\<rparr> else c1)
        in Inr c2)"

section \<open>Model data\<close>

text \<open>
  Modelled from the spec: \<^verbatim>\<open>RasaModelData\<close> (its class is imported from
  \<^verbatim>\<open>rasa.utils.tensorflow.tf_model_data\<close>) maps a group name to an ordered list of
  per-variant arrays, each array holding one entry per example; a group has zero, one or
  two variants, so \<^verbatim>\<open>add_features\<close> keeps the variants that hold data, and a group
  without variants does not exist. The record has one field per group that the classifier
  adds; the masks are derived from the features and are not kept.
\<close>

record RasaModelData =
  text_features :: "shape list list"
  label_features :: "shape list list"
  label_ids :: "nat list"
  tag_ids :: "nat list list"

definition add_features :: "'a list list \<Rightarrow> 'a list list" where
  \<comment> \<open>Modelled from the spec: the variants stored for a group by \<^verbatim>\<open>add_features\<close>,
      a method of the imported \<^verbatim>\<open>RasaModelData\<close>; a variant without data is no variant\<close>
  "add_features features = filter (\<lambda>data. data \<noteq> []) features"

definition feature_not_exists :: "'a list list \<Rightarrow> bool" where
  \<comment> \<open>Modelled from the spec: \<^verbatim>\<open>feature_not_exists\<close>, a method of the imported
      \<^verbatim>\<open>RasaModelData\<close>; a group exists when it has a variant\<close>
  "feature_not_exists variants = (variants = [])"

section \<open>The DIET model object\<close>

text \<open>The arguments of one call of the base class's \<^verbatim>\<open>fit\<close>.\<close>

record fit_call =
  fit_model_data :: RasaModelData
  fit_epochs :: int
  fit_batch_sizes :: "int list"
  fit_evaluate_on_num_examples :: int
  fit_evaluate_every_num_epochs :: int
  fit_batch_strategy :: string
  fit_random_seed :: "int option"

text \<open>
  A \<^verbatim>\<open>DIET\<close> instance. Tensors and layers are opaque; what is kept is the
  namespace of the object: \<open>attrs\<close> holds the attribute names that the methods of
  \<^verbatim>\<open>DIET\<close> have bound on the instance, \<open>tf_layers\<close> the keys of the dictionary
  \<^verbatim>\<open>self._tf_layers\<close> and \<open>tf_layers_embed\<close> the keys of the dictionary
  \<^verbatim>\<open>self._tf_layers["embed"]\<close>. \<open>fit_calls\<close> records the calls of \<^verbatim>\<open>fit\<close>.
\<close>

record DIET =
  attrs :: "string set"
  tf_layers :: "string list"
  tf_layers_embed :: "string list"
  diet_config :: config
  diet_num_tags :: nat
  fit_calls :: "fit_call list"

definition setattr :: "string \<Rightarrow> DIET \<Rightarrow> DIET" where
  "setattr a d = d\<lparr>attrs := insert a (attrs d)\<rparr>"

definition prepare_sequence_layers :: "DIET \<Rightarrow> DIET" where
  "prepare_sequence_layers d =
     d\<lparr>tf_layers := tf_layers d @ [''sparse_dropout'', ''sparse_to_dense'', ''ffnn'', ''transformer'']\<rparr>"

definition prepare_mask_lm_layers :: "DIET \<Rightarrow> DIET" where
  "prepare_mask_lm_layers d =
     d\<lparr>tf_layers := tf_layers d @ [''input_mask'', ''loss_mask''],
       tf_layers_embed := tf_layers_embed d @ [''text_mask'', ''text_token'']\<rparr>"

definition prepare_intent_classification_layers :: "DIET \<Rightarrow> DIET" where
  "prepare_intent_classification_layers d =
     d\<lparr>tf_layers := tf_layers d @ [''loss_label''],
       tf_layers_embed := tf_layers_embed d @ [''text'', ''label'']\<rparr>"

definition prepare_entity_recognition_layers :: "DIET \<Rightarrow> DIET" where
  "prepare_entity_recognition_layers d =
     d\<lparr>tf_layers := tf_layers d @ [''crf'', ''crf_f1_score''],
       tf_layers_embed := tf_layers_embed d @ [''logits'']\<rparr>"

definition prepare_layers :: "DIET \<Rightarrow> DIET" where
  "prepare_layers d =
     (let d1 = (setattr ''_tf_layers'' d)\<lparr>tf_layers := [], tf_layers_embed := []\<rparr>;
          d2 = prepare_sequence_layers d1;
          d3 = d2\<lparr>tf_layers := tf_layers d2 @ [''embed''], tf_layers_embed := []\<rparr>;
          d4 = prepare_mask_lm_layers d3;
          d5 = prepare_intent_classification_layers d4
      in prepare_entity_recognition_layers d5)"

definition DIET_init :: "(nat, string) dict \<Rightarrow> config \<Rightarrow> DIET" where
  \<comment> \<open>\<^verbatim>\<open>DIET.__init__\<close>; the data signature and the label data only reach opaque tensors\<close>
  "DIET_init inverted_tag_dict cfg =
     (let d0 = \<lparr>attrs = {}, tf_layers = [], tf_layers_embed = [], diet_config = cfg,
                 diet_num_tags = length inverted_tag_dict, fit_calls = []\<rparr>;
          d1 = fold setattr [''data_signature'', ''tf_label_data'', ''_num_tags'', ''config''] d0;
          d2 = prepare_layers d1
      in fold setattr [''training'', ''_optimizer'', ''intent_acc'', ''intent_loss'',
                       ''mask_loss'', ''mask_acc'', ''entity_loss'', ''entity_f1'',
                       ''all_labels_embed'', ''batch_tuple_sizes''] d2)"

text \<open>The attribute names that \<^verbatim>\<open>__init__\<close> binds, the last one first.\<close>

definition DIET_instance_attrs :: "string set" where
  "DIET_instance_attrs =
     {''batch_tuple_sizes'', ''all_labels_embed'', ''entity_f1'', ''entity_loss'',
      ''mask_acc'', ''mask_loss'', ''intent_loss'', ''intent_acc'', ''_optimizer'',
      ''training'', ''_tf_layers'', ''config'', ''_num_tags'', ''tf_label_data'',
      ''data_signature''}"

text \<open>The names defined in the body of the class \<^verbatim>\<open>DIET\<close>, found on every instance.\<close>

definition DIET_class_attrs :: "string list" where
  "DIET_class_attrs =
     [''__init__'', ''_prepare_layers'', ''_prepare_sequence_layers'',
      ''_prepare_mask_lm_layers'', ''_prepare_intent_classification_layers'',
      ''_prepare_entity_recognition_layers'', ''set_training_phase'',
      ''_combine_sparse_dense_features'', ''_create_bow'', ''_create_sequence'',
      ''_mask_loss'', ''_build_all_b'', ''_intent_loss'', ''_entity_loss'',
      ''_train_losses_scores'', ''build_for_predict'', ''predict'',
      ''_create_sparse_dense_layer'', ''_input_dim'']"

text \<open>
  Attribute lookup \<^verbatim>\<open>self.a\<close>. The base class \<^verbatim>\<open>tf_models.RasaModel\<close> is not part
  of the sources; \<open>base\<close> is the set of names that it (with its own base classes)
  provides, through its class body or by binding them on the instance.
\<close>

definition getattr :: "string set \<Rightarrow> DIET \<Rightarrow> string \<Rightarrow> error + unit" where
  "getattr base d a =
     (if a \<in> attrs d \<or> a \<in> set DIET_class_attrs \<or> a \<in> base then Inr ()
      else Inl (AttributeError a))"

text \<open>
  The accesses to the object that a method makes: an attribute \<^verbatim>\<open>self.a\<close>, a layer
  \<^verbatim>\<open>self._tf_layers[k]\<close>, or an embedding layer \<^verbatim>\<open>self._tf_layers["embed"][k]\<close>.
  A method is modelled by the accesses it makes, in the order of evaluation; the first
  access that fails raises.
\<close>

datatype access = Attr string | Layer string | Embed_layer string

definition getlayer :: "string set \<Rightarrow> DIET \<Rightarrow> string \<Rightarrow> error + unit" where
  "getlayer base d k =
     (case getattr base d ''_tf_layers'' of
        Inl e \<Rightarrow> Inl e
      | Inr u \<Rightarrow> if k \<in> set (tf_layers d) then Inr () else Inl KeyError)"

fun access_ok :: "string set \<Rightarrow> DIET \<Rightarrow> access \<Rightarrow> error + unit" where
  "access_ok base d (Attr a) = getattr base d a"
| "access_ok base d (Layer k) = getlayer base d k"
| "access_ok base d (Embed_layer k) =
     (case getlayer base d ''embed'' of
        Inl e \<Rightarrow> Inl e
      | Inr u \<Rightarrow> if k \<in> set (tf_layers_embed d) then Inr () else Inl KeyError)"

fun accesses :: "string set \<Rightarrow> DIET \<Rightarrow> access list \<Rightarrow> error + unit" where
  "accesses base d [] = Inr ()"
| "accesses base d (a # as) =
     (case access_ok base d a of Inl e \<Rightarrow> Inl e | Inr u \<Rightarrow> accesses base d as)"

definition set_training_phase :: "bool \<Rightarrow> DIET \<Rightarrow> DIET" where
  "set_training_phase training d = setattr ''training'' d"

definition build_for_predict :: "DIET \<Rightarrow> DIET" where
  \<comment> \<open>the attributes that \<^verbatim>\<open>build_for_predict\<close> binds\<close>
  "build_for_predict d = setattr ''all_labels_embed'' (setattr ''batch_tuple_sizes'' d)"

definition combine_sparse_dense_features :: "bool list \<Rightarrow> bool \<Rightarrow> access list" where
  \<comment> \<open>\<open>features\<close> tells of each feature tensor whether it is a \<^verbatim>\<open>tf.SparseTensor\<close>\<close>
  "combine_sparse_dense_features features sparse_dropout =
     concat (map (\<lambda>is_sparse.
       if is_sparse then
         (if sparse_dropout then [Layer ''sparse_dropout'', Attr ''training''] else [])
         @ [Layer ''sparse_to_dense'']
       else []) features)"

definition create_sequence :: "DIET \<Rightarrow> bool list \<Rightarrow> bool \<Rightarrow> access list" where
  "create_sequence d features masked_lm_loss =
     [Attr ''_combine_sparse_dense_features'', Attr ''config'']
     @ combine_sparse_dense_features features (SPARSE_INPUT_DROPOUT (diet_config d))
     @ (if masked_lm_loss then [Layer ''input_mask'', Attr ''training''] else [])
     @ [Layer ''transformer'', Attr ''training'']"

definition DIET_predict :: "string set \<Rightarrow> DIET \<Rightarrow> bool list \<Rightarrow> error + string list" where
  \<comment> \<open>\<^verbatim>\<open>DIET.predict\<close> on a batch whose text features are \<open>features\<close>; the result
      lists the keys of the dictionary \<^verbatim>\<open>out\<close>\<close>
  "DIET_predict base d features =
     and_then (accesses base d
                 ([Attr ''batch_to_model_data_format'', Attr ''data_signature'',
                   Attr ''_create_sequence'']
                  @ create_sequence d features False @ [Attr ''config''])) (\<lambda>u.
     and_then
       (if INTENT_CLASSIFICATION (diet_config d) then
          and_then (accesses base d
                      [Attr ''_embed'', Attr ''_loss_label'', Attr ''all_labels_embed'',
                       Attr ''config''])
            (\<lambda>u. Inr [''i_scores''])
        else Inr []) (\<lambda>keys.
     and_then (access_ok base d (Attr ''config'')) (\<lambda>u.
       if ENTITY_RECOGNITION (diet_config d) then
         and_then (accesses base d [Attr ''_embed'', Attr ''_crf''])
           (\<lambda>u. Inr (keys @ [''e_ids'']))
       else Inr keys)))"

definition fit :: "fit_call \<Rightarrow> DIET \<Rightarrow> DIET" where
  \<comment> \<open>the base class's \<^verbatim>\<open>fit\<close>, kept as a record of the call\<close>
  "fit call d = d\<lparr>fit_calls := fit_calls d @ [call]\<rparr>"

text \<open>
  The operations on a \<^verbatim>\<open>DIET\<close> instance after its construction: its own methods,
  the assignment \<^verbatim>\<open>model.data_signature = ...\<close> that \<^verbatim>\<open>load\<close> performs, and the
  calls of \<^verbatim>\<open>fit\<close>. \<^verbatim>\<open>_train_losses_scores\<close> and \<^verbatim>\<open>predict\<close> bind no
  attribute.
\<close>

datatype DIET_op =
    Set_training_phase bool
  | Build_for_predict
  | Train_losses_scores
  | Assign_data_signature
  | Predict
  | Fit fit_call

fun DIET_apply :: "DIET_op \<Rightarrow> DIET \<Rightarrow> DIET" where
  "DIET_apply (Set_training_phase b) d = set_training_phase b d"
| "DIET_apply Build_for_predict d = build_for_predict d"
| "DIET_apply Train_losses_scores d = d"
| "DIET_apply Assign_data_signature d = setattr ''data_signature'' d"
| "DIET_apply Predict d = d"
| "DIET_apply (Fit call) d = fit call d"

section \<open>The classifier\<close>

text \<open>
  The functions and constants that the classifier imports from modules outside the
  sources: the length of the ranking, the gold tag of a token given the entities of its
  message, the feature dimension of a group of model data, the base class's
  \<^verbatim>\<open>add_extractor_name\<close>, and NumPy's \<^verbatim>\<open>argsort\<close>, whose default sort is not
  stable, so that the order it gives to the indices of equal scores is left open. They
  are parameters of the model.
\<close>

record collaborators =
  LABEL_RANKING_LENGTH :: nat
  argsort :: "float list \<Rightarrow> nat list"
  determine_token_labels :: "Token \<Rightarrow> entity list option \<Rightarrow> string"
  get_feature_dimension :: "RasaModelData \<Rightarrow> string \<Rightarrow> nat"
  add_extractor_name :: "entity list \<Rightarrow> entity list"

text \<open>The output of the prediction function: the dictionary with the keys that the
  enabled heads have set.\<close>

record out =
  i_scores :: "float list list option"
  e_ids :: "nat list list option"

datatype level = DEBUG | ERROR

text \<open>
  The state of an \<^verbatim>\<open>EmbeddingIntentClassifier\<close>. The calls of the module's logger are
  collected in \<open>logged\<close>. The seeds of the global random generators are not part of
  the state.
\<close>

record classifier =
  component_config :: config
  inverted_label_dict :: "(nat, string) dict option"
  inverted_tag_dict :: "(nat, string) dict option"
  model :: "DIET option"
  predict_func :: "(RasaModelData \<Rightarrow> error + out) option"
  label_data :: "RasaModelData option"
  num_tags :: nat
  data_example :: "RasaModelData option"
  logged :: "(level \<times> string) list"

definition EmbeddingIntentClassifier ::
  "config \<Rightarrow> (nat, string) dict option \<Rightarrow> (nat, string) dict option \<Rightarrow> DIET option \<Rightarrow>
   (RasaModelData \<Rightarrow> error + out) option \<Rightarrow> error + classifier" where
  \<comment> \<open>\<^verbatim>\<open>__init__\<close>, after the base class has stored the configuration\<close>
  "EmbeddingIntentClassifier cfg inv_label_dict inv_tag_dict mdl pred =
     and_then (check_config_parameters cfg) (\<lambda>c.
       Inr \<lparr>component_config = c, inverted_label_dict = inv_label_dict,
            inverted_tag_dict = inv_tag_dict, model = mdl, predict_func = pred,
            label_data = None, num_tags = 0, data_example = None, logged = []\<rparr>)"

definition log_msg :: "level \<Rightarrow> string \<Rightarrow> classifier \<Rightarrow> classifier" where
  "log_msg lvl msg self = self\<lparr>logged := logged self @ [(lvl, msg)]\<rparr>"

subsection \<open>Training data helpers\<close>

definition invert_dict :: "('k, 'v) dict \<Rightarrow> ('v, 'k) dict" where
  \<comment> \<open>\<^verbatim>\<open>{v: k for k, v in d.items()}\<close>\<close>
  "invert_dict d = dict_of (map (\<lambda>(k, v). (v, k)) d)"

definition is_dict_value :: "attr_value option \<Rightarrow> bool" where
  "is_dict_value v = (case v of Some (Dict_value l) \<Rightarrow> True | _ \<Rightarrow> False)"

definition text_values :: "attr_value option list \<Rightarrow> string list" where
  "text_values vs = concat (map (\<lambda>v. case v of Some (Text_value s) \<Rightarrow> [s] | _ \<Rightarrow> []) vs)"

definition create_label_id_dict :: "TrainingData \<Rightarrow> attribute \<Rightarrow> error + (string, nat) dict" where
  \<comment> \<open>a dictionary cannot be a member of a set: \<open>TypeError\<close>\<close>
  "create_label_id_dict training_data attribute =
     (let vals = map (\<lambda>example. get_attribute example (Some attribute))
                     (intent_examples training_data)
      in if list_ex is_dict_value vals then Inl TypeError
         else
           let distinct_label_ids = text_values vals
           in Inr (dict_of (map (\<lambda>(idx, label_id). (label_id, idx))
                      (enumerate_from 0 (sorted_set distinct_label_ids)))))"

fun entities_of :: "Message list \<Rightarrow> error + entity list" where
  \<comment> \<open>the entities of all examples in order; iterating over \<^verbatim>\<open>None\<close> is a \<open>TypeError\<close>\<close>
  "entities_of [] = Inr []"
| "entities_of (example # examples) =
     (case msg_entities example of
        None \<Rightarrow> Inl TypeError
      | Some es \<Rightarrow> (case entities_of examples of Inl e \<Rightarrow> Inl e | Inr rest \<Rightarrow> Inr (es @ rest)))"

definition create_tag_id_dict :: "TrainingData \<Rightarrow> error + (string, nat) dict" where
  "create_tag_id_dict training_data =
     and_then (entities_of (entity_examples training_data)) (\<lambda>es.
       let distinct_tag_ids = concat (map (\<lambda>e. case ent_entity e of None \<Rightarrow> [] | Some t \<Rightarrow> [t]) es);
           tag_id_dict = dict_of (map (\<lambda>(idx, tag_id). (tag_id, idx))
                           (enumerate_from 1 (sorted_set distinct_tag_ids)))
       in Inr (AList.update ''O'' 0 tag_id_dict))"

definition find_example_for_label :: "string \<Rightarrow> Message list \<Rightarrow> attribute \<Rightarrow> Message option" where
  "find_example_for_label lbl examples attribute =
     find (\<lambda>ex. get_attribute ex (Some attribute) = Some (Text_value lbl)) examples"

fun check_labels_features_exist :: "Message option list \<Rightarrow> attribute \<Rightarrow> error + bool" where
  \<comment> \<open>\<^verbatim>\<open>None.get\<close> is an \<open>AttributeError\<close>\<close>
  "check_labels_features_exist [] attribute = Inr True"
| "check_labels_features_exist (None # labels_example) attribute = Inl (AttributeError ''get'')"
| "check_labels_features_exist (Some label_example # labels_example) attribute =
     (if get_sparse_features label_example attribute = None
         \<and> get_dense_features label_example attribute = None
      then Inr False
      else check_labels_features_exist labels_example attribute)"

definition extract_and_add_features :: "Message \<Rightarrow> attribute \<Rightarrow> error + shape option \<times> shape option" where
  "extract_and_add_features message attribute =
     (let sparse_features = get_sparse_features message attribute;
          dense_features = get_dense_features message attribute
      in case (sparse_features, dense_features) of
           (Some sp, Some de) \<Rightarrow>
             if fst sp \<noteq> fst de then Inl ValueError else Inr (sparse_features, dense_features)
         | _ \<Rightarrow> Inr (sparse_features, dense_features))"

definition append_some :: "'a list \<Rightarrow> 'a option \<Rightarrow> 'a list" where
  \<comment> \<open>\<^verbatim>\<open>if x is not None: xs.append(x)\<close>\<close>
  "append_some xs x = (case x of None \<Rightarrow> xs | Some y \<Rightarrow> xs @ [y])"

definition check_input_dimension_consistency ::
  "collaborators \<Rightarrow> classifier \<Rightarrow> RasaModelData \<Rightarrow> error + unit" where
  "check_input_dimension_consistency ext self model_data =
     (if SHARE_HIDDEN_LAYERS (component_config self) then
        (let num_text_features = get_feature_dimension ext model_data ''text_features'';
             num_intent_features = get_feature_dimension ext model_data ''label_features''
         in if num_text_features \<noteq> num_intent_features then Inl ValueError else Inr ())
      else Inr ())"

fun extract_labels_loop ::
  "Message option list \<Rightarrow> attribute \<Rightarrow> shape list \<times> shape list \<Rightarrow> error + shape list \<times> shape list" where
  "extract_labels_loop [] attribute acc = Inr acc"
| "extract_labels_loop (None # es) attribute acc = Inl (AttributeError ''get'')"
| "extract_labels_loop (Some e # es) attribute (sparse_features, dense_features) =
     (case extract_and_add_features e attribute of
        Inl err \<Rightarrow> Inl err
      | Inr (sp, de) \<Rightarrow>
          extract_labels_loop es attribute
            (append_some sparse_features sp, append_some dense_features de))"

definition extract_labels_precomputed_features ::
  "Message option list \<Rightarrow> attribute \<Rightarrow> error + shape list list" where
  "extract_labels_precomputed_features label_examples attribute =
     and_then (extract_labels_loop label_examples attribute ([], []))
       (\<lambda>(sparse_features, dense_features). Inr [sparse_features, dense_features])"

definition compute_default_label_features :: "Message option list \<Rightarrow> shape list list" where
  \<comment> \<open>the rows of the identity matrix, each with a leading axis of length one\<close>
  "compute_default_label_features labels_example =
     [replicate (length labels_example) (1, length labels_example)]"

definition empty_model_data :: RasaModelData where
  "empty_model_data = \<lparr>text_features = [], label_features = [], label_ids = [], tag_ids = []\<rparr>"

definition create_label_data ::
  "TrainingData \<Rightarrow> (string, nat) dict \<Rightarrow> attribute \<Rightarrow> error + RasaModelData" where
  "create_label_data training_data label_id_dict attribute =
     (let labels_idx_example =
            map (\<lambda>(label_name, idx).
                   (idx, find_example_for_label label_name (intent_examples training_data) attribute))
                label_id_dict;
          labels_example = map snd (sort_key fst labels_idx_example)
      in and_then (check_labels_features_exist labels_example attribute) (\<lambda>exist.
         and_then (if exist then extract_labels_precomputed_features labels_example attribute
                   else Inr (compute_default_label_features labels_example)) (\<lambda>features.
           Inr (empty_model_data\<lparr>label_features := add_features features\<rparr>))))"

fun traverse :: "('a \<Rightarrow> error + 'b) \<Rightarrow> 'a list \<Rightarrow> error + 'b list" where
  \<comment> \<open>a list comprehension whose element expression may raise\<close>
  "traverse f [] = Inr []"
| "traverse f (x # xs) =
     (case f x of
        Inl e \<Rightarrow> Inl e
      | Inr y \<Rightarrow> (case traverse f xs of Inl e \<Rightarrow> Inl e | Inr ys \<Rightarrow> Inr (y # ys)))"

definition use_default_label_features :: "classifier \<Rightarrow> nat list \<Rightarrow> error + shape list list" where
  "use_default_label_features self lids =
     and_then
       (traverse (\<lambda>label_id.
          case label_data self of
            None \<Rightarrow> Inl (AttributeError ''get'')
          | Some ld \<Rightarrow>
              (case label_features ld of
                 [] \<Rightarrow> Inl IndexError
               | v # vs \<Rightarrow> if label_id < length v then Inr (v ! label_id) else Inl IndexError))
          lids)
       (\<lambda>rows. Inr [rows])"

text \<open>
  The accumulators of the loop of \<^verbatim>\<open>_create_model_data\<close>.
\<close>

record model_data_acc =
  X_sparse :: "shape list"
  X_dense :: "shape list"
  Y_sparse :: "shape list"
  Y_dense :: "shape list"
  acc_label_ids :: "nat list"
  acc_tag_ids :: "nat list list"

definition label_step ::
  "(string, nat) dict option \<Rightarrow> attribute option \<Rightarrow> model_data_acc \<Rightarrow> Message \<Rightarrow> error + model_data_acc" where
  \<comment> \<open>the branch \<^verbatim>\<open>if e.get(label_attribute):\<close> of the loop body\<close>
  "label_step label_id_dict label_attribute acc e =
     (case label_attribute of
        None \<Rightarrow> Inr acc
      | Some attribute \<Rightarrow>
          if truthy (get_attribute e label_attribute) then
            and_then (extract_and_add_features e attribute) (\<lambda>(sp, de).
              let acc1 = acc\<lparr>Y_sparse := append_some (Y_sparse acc) sp,
                              Y_dense := append_some (Y_dense acc) de\<rparr>
              in case label_id_dict of
                   None \<Rightarrow> Inr acc1
                 | Some d \<Rightarrow>
                     if d = [] then Inr acc1
                     else (case get_attribute e label_attribute of
                             Some (Text_value s) \<Rightarrow>
                               and_then (getitem d s) (\<lambda>i.
                                 Inr (acc1\<lparr>acc_label_ids := acc_label_ids acc1 @ [i]\<rparr>))
                           | _ \<Rightarrow> Inl TypeError))
          else Inr acc)"

definition tag_step ::
  "collaborators \<Rightarrow> classifier \<Rightarrow> (string, nat) dict option \<Rightarrow> model_data_acc \<Rightarrow> Message \<Rightarrow>
   error + model_data_acc" where
  \<comment> \<open>the branch \<^verbatim>\<open>if self.component_config[ENTITY_RECOGNITION] and tag_id_dict:\<close>\<close>
  "tag_step ext self tag_id_dict acc e =
     (case tag_id_dict of
        None \<Rightarrow> Inr acc
      | Some d \<Rightarrow>
          if ENTITY_RECOGNITION (component_config self) \<and> d \<noteq> [] then
            (case msg_tokens e of
               None \<Rightarrow> Inl TypeError
             | Some ts \<Rightarrow>
                 and_then (traverse (\<lambda>t. getitem d (determine_token_labels ext t (msg_entities e))) ts)
                   (\<lambda>tags. Inr (acc\<lparr>acc_tag_ids := acc_tag_ids acc @ [tags]\<rparr>)))
          else Inr acc)"

fun model_data_loop ::
  "collaborators \<Rightarrow> classifier \<Rightarrow> (string, nat) dict option \<Rightarrow> (string, nat) dict option \<Rightarrow>
   attribute option \<Rightarrow> model_data_acc \<Rightarrow> Message list \<Rightarrow> error + model_data_acc" where
  "model_data_loop ext self label_id_dict tag_id_dict label_attribute acc [] = Inr acc"
| "model_data_loop ext self label_id_dict tag_id_dict label_attribute acc (e # es) =
     (case extract_and_add_features e TEXT_ATTRIBUTE of
        Inl err \<Rightarrow> Inl err
      | Inr (sp, de) \<Rightarrow>
          (case label_step label_id_dict label_attribute
                  (acc\<lparr>X_sparse := append_some (X_sparse acc) sp,
                        X_dense := append_some (X_dense acc) de\<rparr>) e of
             Inl err \<Rightarrow> Inl err
           | Inr acc1 \<Rightarrow>
               (case tag_step ext self tag_id_dict acc1 e of
                  Inl err \<Rightarrow> Inl err
                | Inr acc2 \<Rightarrow>
                    model_data_loop ext self label_id_dict tag_id_dict label_attribute acc2 es)))"

definition create_model_data ::
  "collaborators \<Rightarrow> classifier \<Rightarrow> Message list \<Rightarrow> (string, nat) dict option \<Rightarrow>
   (string, nat) dict option \<Rightarrow> attribute option \<Rightarrow> error + RasaModelData" where
  "create_model_data ext self training_data label_id_dict tag_id_dict label_attribute =
     and_then
       (model_data_loop ext self label_id_dict tag_id_dict label_attribute
          \<lparr>X_sparse = [], X_dense = [], Y_sparse = [], Y_dense = [],
           acc_label_ids = [], acc_tag_ids = []\<rparr> training_data) (\<lambda>acc.
     let label_features0 = add_features [Y_sparse acc, Y_dense acc]
     in and_then
          (if label_attribute \<noteq> None \<and> feature_not_exists label_features0
           then and_then (use_default_label_features self (acc_label_ids acc))
                  (\<lambda>features. Inr (add_features features))
           else Inr label_features0) (\<lambda>label_features1.
        Inr \<lparr>text_features = add_features [X_sparse acc, X_dense acc],
             label_features = label_features1,
             label_ids = acc_label_ids acc,
             tag_ids = acc_tag_ids acc\<rparr>))"

subsection \<open>Training\<close>

definition preprocess_train_data ::
  "collaborators \<Rightarrow> classifier \<Rightarrow> TrainingData \<Rightarrow> error + classifier \<times> RasaModelData" where
  "preprocess_train_data ext self training_data =
     and_then (create_label_id_dict training_data INTENT_ATTRIBUTE) (\<lambda>label_id_dict.
     let self1 = self\<lparr>inverted_label_dict := Some (invert_dict label_id_dict)\<rparr>
     in and_then (create_label_data training_data label_id_dict INTENT_ATTRIBUTE) (\<lambda>ld.
     let self2 = self1\<lparr>label_data := Some ld\<rparr>
     in and_then (create_tag_id_dict training_data) (\<lambda>tag_id_dict.
     let self3 = self2\<lparr>inverted_tag_dict := Some (invert_dict tag_id_dict)\<rparr>
     in and_then (create_model_data ext self3 (training_examples training_data)
                    (Some label_id_dict) (Some tag_id_dict) (Some INTENT_ATTRIBUTE)) (\<lambda>model_data.
     let self4 = self3\<lparr>num_tags := length (invert_dict tag_id_dict)\<rparr>
     in and_then (check_input_dimension_consistency ext self4 model_data) (\<lambda>u.
          Inr (self4, model_data))))))"

definition check_enough_labels :: "RasaModelData \<Rightarrow> bool" where
  \<comment> \<open>\<^verbatim>\<open>len(np.unique(model_data.get("label_ids"))) >= 2\<close>\<close>
  "check_enough_labels model_data = (length (remdups (label_ids model_data)) \<ge> 2)"

definition first_example :: "RasaModelData \<Rightarrow> RasaModelData" where
  \<comment> \<open>\<^verbatim>\<open>{k: [v[:1] for v in vs] for k, vs in model_data.items()}\<close>\<close>
  "first_example model_data =
     \<lparr>text_features = map (take 1) (text_features model_data),
      label_features = map (take 1) (label_features model_data),
      label_ids = take 1 (label_ids model_data),
      tag_ids = take 1 (tag_ids model_data)\<rparr>"

definition msg_started :: string where
  "msg_started = ''Started training embedding classifier.''"

definition msg_cannot_train :: string where
  "msg_cannot_train =
     ''Can not train intent classifier. Need at least 2 different classes. Skipping training of classifier.''"

definition np_random_seed :: "int option \<Rightarrow> error + unit" where
  \<comment> \<open>NumPy's \<^verbatim>\<open>np.random.seed\<close> takes \<^verbatim>\<open>None\<close> or an integer between 0 and
      \<open>2**32 - 1\<close>, and raises \<open>ValueError\<close> for any other integer\<close>
  "np_random_seed seed =
     (case seed of
        None \<Rightarrow> Inr ()
      | Some n \<Rightarrow> if 0 \<le> n \<and> n < 2 ^ 32 then Inr () else Inl ValueError)"

definition train :: "collaborators \<Rightarrow> classifier \<Rightarrow> TrainingData \<Rightarrow> error + classifier" where
  "train ext self training_data =
     (let self0 = log_msg DEBUG msg_started self
      in and_then (np_random_seed (RANDOM_SEED (component_config self0))) (\<lambda>_.
         and_then (preprocess_train_data ext self0 training_data) (\<lambda>(self1, model_data).
           if INTENT_CLASSIFICATION (component_config self1) \<and> \<not> check_enough_labels model_data
           then Inr (log_msg ERROR msg_cannot_train self1)
           else
             let cfg = component_config self1;
                 self2 = self1\<lparr>data_example := Some (first_example model_data)\<rparr>;
                 self3 = self2\<lparr>model :=
                           Some (DIET_init (case inverted_tag_dict self2 of None \<Rightarrow> [] | Some d \<Rightarrow> d) cfg)\<rparr>
             in Inr (self3\<lparr>model :=
                       map_option
                         (fit \<lparr>fit_model_data = model_data, fit_epochs = EPOCHS cfg,
                               fit_batch_sizes = BATCH_SIZES cfg,
                               fit_evaluate_on_num_examples = EVAL_NUM_EXAMPLES cfg,
                               fit_evaluate_every_num_epochs = EVAL_NUM_EPOCHS cfg,
                               fit_batch_strategy = BATCH_STRATEGY cfg,
                               fit_random_seed = RANDOM_SEED cfg\<rparr>)
                         (model self3)\<rparr>))))"

subsection \<open>Inference\<close>

definition predict :: "collaborators \<Rightarrow> classifier \<Rightarrow> Message \<Rightarrow> error + out option" where
  \<comment> \<open>\<^verbatim>\<open>_predict\<close>; the batch of one example is handed to the prediction function as the
      model data it is made from\<close>
  "predict ext self message =
     (case (model self, predict_func self) of
        (Some m, Some f) \<Rightarrow>
          and_then (create_model_data ext self [message] None None None) (\<lambda>model_data.
          and_then (f model_data) (\<lambda>r. Inr (Some r)))
      | _ \<Rightarrow> Inr None)"

definition msg_no_session_label :: string where
  "msg_no_session_label =
     ''There is no trained tf.session: component is either not trained or didn't receive enough training data.''"

definition msg_no_session_entities :: string where
  "msg_no_session_entities =
     ''There is no trained tf.session: component is either not trained or didn't receive enough training data''"

definition is_argsort :: "(float list \<Rightarrow> nat list) \<Rightarrow> bool" where
  \<comment> \<open>what \<^verbatim>\<open>argsort\<close> promises: the indices of the array, each once, in an order that
      sorts the array\<close>
  "is_argsort f =
     (\<forall>xs. distinct (f xs) \<and> set (f xs) = {0 ..< length xs}
           \<and> sorted (map (\<lambda>i. np_key (xs ! i)) (f xs)))"

definition sort_descending :: "float list \<Rightarrow> float list" where
  \<comment> \<open>\<^verbatim>\<open>xs[::-1].sort()\<close>: the reversed view is sorted in place, in NumPy's order\<close>
  "sort_descending xs = rev (sort_key np_key (rev xs))"

definition predict_label ::
  "collaborators \<Rightarrow> classifier \<Rightarrow> out option \<Rightarrow> error + classifier \<times> label \<times> label list" where
  "predict_label ext self output =
     (let lbl = \<lparr>lab_name = None, lab_confidence = Num 0\<rparr>;
          label_ranking = []
      in if model self = None then Inr (log_msg ERROR msg_no_session_label self, lbl, label_ranking)
         else
           (case output of
              None \<Rightarrow> Inl TypeError
            | Some r \<Rightarrow>
                (case i_scores r of
                   None \<Rightarrow> Inl KeyError
                 | Some scores \<Rightarrow>
                     let message_sim0 = concat scores;
                         lids = rev (argsort ext message_sim0);
                         message_sim = sort_descending message_sim0
                     in if lids \<noteq> [] then
                          (case inverted_label_dict self of
                             None \<Rightarrow> Inl TypeError
                           | Some d \<Rightarrow>
                               and_then (getitem d (hd lids)) (\<lambda>n.
                               let lbl1 = \<lparr>lab_name = Some n, lab_confidence = hd message_sim\<rparr>;
                                   ranking = take (LABEL_RANKING_LENGTH ext) (zip lids message_sim)
                               in and_then
                                    (traverse (\<lambda>(label_idx, score).
                                       and_then (getitem d label_idx) (\<lambda>n'.
                                         Inr \<lparr>lab_name = Some n', lab_confidence = score\<rparr>)) ranking)
                                    (\<lambda>label_ranking1. Inr (self, lbl1, label_ranking1))))
                        else Inr (self, lbl, label_ranking))))"

definition predict_entities ::
  "collaborators \<Rightarrow> classifier \<Rightarrow> out option \<Rightarrow> Message \<Rightarrow> error + classifier \<times> entity list" where
  "predict_entities ext self output message =
     (if model self = None then Inr (log_msg ERROR msg_no_session_entities self, [])
      else
        (case output of
           None \<Rightarrow> Inl TypeError
         | Some r \<Rightarrow>
             (case e_ids r of
                None \<Rightarrow> Inl KeyError
              | Some predictions \<Rightarrow>
                  (case predictions of
                     [] \<Rightarrow> Inl IndexError
                   | p0 # ps \<Rightarrow>
                       (case inverted_tag_dict self of
                          None \<Rightarrow> Inl TypeError
                        | Some d \<Rightarrow>
                            and_then (traverse (getitem d) p0) (\<lambda>tags.
                            and_then (convert_tags_to_entities (msg_text message)
                                        (case msg_tokens message of None \<Rightarrow> [] | Some ts \<Rightarrow> ts) tags)
                              (\<lambda>es.
                                 let extracted = add_extractor_name ext es
                                 in Inr (self, (case msg_entities message of None \<Rightarrow> [] | Some prior \<Rightarrow> prior)
                                                @ extracted))))))))"

definition process :: "collaborators \<Rightarrow> classifier \<Rightarrow> Message \<Rightarrow> error + classifier \<times> Message" where
  "process ext self message =
     and_then (predict ext self message) (\<lambda>output.
     and_then
       (if INTENT_CLASSIFICATION (component_config self) then
          and_then (predict_label ext self output) (\<lambda>(self1, lbl, label_ranking).
            Inr (self1, message\<lparr>msg_intent := Some (Dict_value lbl),
                                msg_intent_ranking := Some label_ranking\<rparr>))
        else Inr (self, message)) (\<lambda>(self1, message1).
     if ENTITY_RECOGNITION (component_config self1) then
       and_then (predict_entities ext self1 output message1) (\<lambda>(self2, es).
         Inr (self2, message1\<lparr>msg_entities := Some es\<rparr>))
     else Inr (self1, message1)))"

section \<open>The selection mask of the masked language model loss\<close>

text \<open>
  A tensor of rank three is a list of sequences, each a list of positions, each a list
  of entries. Its shape is read off the first sequence and the first position.
\<close>

definition reduce_any :: "bool list list list \<Rightarrow> bool" where
  "reduce_any t = list_ex (list_ex (list_ex (\<lambda>b. b))) t"

definition tf_shape :: "'a list list list \<Rightarrow> nat \<times> nat \<times> nat" where
  "tf_shape t =
     (length t,
      (case t of [] \<Rightarrow> 0 | r # rs \<Rightarrow> length r),
      (case t of [] \<Rightarrow> 0 | r # rs \<Rightarrow> (case r of [] \<Rightarrow> 0 | c # cs \<Rightarrow> length c)))"

definition scatter_nd_first :: "nat \<times> nat \<times> nat \<Rightarrow> error + bool list list list" where
  \<comment> \<open>\<^verbatim>\<open>tf.scatter_nd([[0, 0, 0]], [True], shape)\<close>; an index outside the shape is an error\<close>
  "scatter_nd_first shp =
     (case shp of (b, s, d) \<Rightarrow>
        if b = 0 \<or> s = 0 \<or> d = 0 then Inl InvalidArgumentError
        else Inr (((replicate d False)[0 := True] # replicate (s - 1) (replicate d False))
                  # replicate (b - 1) (replicate s (replicate d False))))"

definition squeeze_last :: "'a list list list \<Rightarrow> error + 'a list list" where
  \<comment> \<open>\<^verbatim>\<open>tf.squeeze(t, -1)\<close>: the last axis must have length one\<close>
  "squeeze_last t =
     (if snd (snd (tf_shape t)) = 1 then Inr (map (map hd) t) else Inl InvalidArgumentError)"

definition mask_loss_lm_mask_bool :: "bool list list list \<Rightarrow> error + bool list list" where
  \<comment> \<open>the value of \<^verbatim>\<open>lm_mask_bool\<close> that \<^verbatim>\<open>_mask_loss\<close> passes to \<^verbatim>\<open>tf.boolean_mask\<close>\<close>
  "mask_loss_lm_mask_bool lm_mask_bool =
     and_then (if reduce_any lm_mask_bool then Inr lm_mask_bool
               else scatter_nd_first (tf_shape lm_mask_bool)) squeeze_last"

section \<open>Sample values\<close>

text \<open>The dictionary \<^verbatim>\<open>defaults\<close> of the class \<^verbatim>\<open>EmbeddingIntentClassifier\<close>.\<close>

definition defaults :: config where
  "defaults =
     \<lparr>HIDDEN_LAYERS_SIZES_TEXT = [], HIDDEN_LAYERS_SIZES_LABEL = [],
      SHARE_HIDDEN_LAYERS = False, SIMILARITY_TYPE = ''auto'', LOSS_TYPE = ''softmax'',
      EPOCHS = 300, BATCH_SIZES = [64, 256], BATCH_STRATEGY = ''balanced'',
      RANDOM_SEED = None, EVAL_NUM_EPOCHS = 20, EVAL_NUM_EXAMPLES = 0,
      INTENT_CLASSIFICATION = True, ENTITY_RECOGNITION = True, MASKED_LM = False,
      SPARSE_INPUT_DROPOUT = False\<rparr>"

text \<open>Names that a base class of \<^verbatim>\<open>DIET\<close> may provide.\<close>

definition sample_base :: "string set" where
  "sample_base = {''batch_to_model_data_format'', ''fit'', ''load_weights'', ''save_weights''}"

text \<open>Two training examples, one with an entity, and the training data made of them.\<close>

definition sample_message :: "string \<Rightarrow> Message" where
  "sample_message t =
     \<lparr>msg_text = t, msg_intent = None, msg_intent_ranking = None, msg_entities = None,
      msg_tokens = None, msg_text_sparse_features = None, msg_text_dense_features = None,
      msg_intent_sparse_features = None, msg_intent_dense_features = None\<rparr>"

definition greet_example :: Message where
  "greet_example =
     (sample_message ''hello Bob'')
       \<lparr>msg_intent := Some (Text_value ''greet''),
        msg_tokens := Some [\<lparr>tok_text = ''hello'', tok_start = 0, tok_end = 5\<rparr>,
                            \<lparr>tok_text = ''Bob'', tok_start = 6, tok_end = 9\<rparr>,
                            \<lparr>tok_text = ''__CLS__'', tok_start = 10, tok_end = 17\<rparr>],
        msg_entities := Some [\<lparr>ent_entity = Some ''PER'', ent_start = 6, ent_end = 9,
                               ent_extractor = None, ent_value = Some ''Bob''\<rparr>],
        msg_text_sparse_features := Some (3, 12)\<rparr>"

definition bye_example :: Message where
  "bye_example =
     (sample_message ''bye'')
       \<lparr>msg_intent := Some (Text_value ''bye''),
        msg_tokens := Some [\<lparr>tok_text = ''bye'', tok_start = 0, tok_end = 3\<rparr>,
                            \<lparr>tok_text = ''__CLS__'', tok_start = 4, tok_end = 11\<rparr>],
        msg_entities := Some [],
        msg_text_sparse_features := Some (2, 12)\<rparr>"

definition sample_training_data :: TrainingData where
  "sample_training_data =
     \<lparr>training_examples = [greet_example, bye_example],
      intent_examples = [greet_example, bye_example],
      entity_examples = [greet_example]\<rparr>"

text \<open>
  Sample collaborators, and a classifier as \<^verbatim>\<open>load\<close> returns it, with a prediction
  function that returns fixed scores and tag ids.
\<close>

definition stable_argsort :: "float list \<Rightarrow> nat list" where
  \<comment> \<open>the indices sorted by a stable sort\<close>
  "stable_argsort xs = sort_key (\<lambda>i. np_key (xs ! i)) [0 ..< length xs]"

definition sample_ext :: collaborators where
  "sample_ext =
     \<lparr>LABEL_RANKING_LENGTH = 10,
      argsort = stable_argsort,
      determine_token_labels = (\<lambda>t es.
        case find (\<lambda>e. ent_start e \<le> tok_start t \<and> tok_end t \<le> ent_end e)
               (case es of None \<Rightarrow> [] | Some l \<Rightarrow> l) of
          None \<Rightarrow> ''O''
        | Some e \<Rightarrow> (case ent_entity e of None \<Rightarrow> ''O'' | Some n \<Rightarrow> n)),
      get_feature_dimension = (\<lambda>model_data key.
        sum_list (map (\<lambda>variant. case variant of [] \<Rightarrow> 0 | sh # rest \<Rightarrow> snd sh)
          (if key = ''text_features'' then text_features model_data
           else label_features model_data))),
      add_extractor_name = map (\<lambda>e. e\<lparr>ent_extractor := Some ''EmbeddingIntentClassifier''\<rparr>)\<rparr>"

definition sample_out :: out where
  "sample_out = \<lparr>i_scores = Some [[Num 0.2, Num 0.8]], e_ids = Some [[0, 1, 0]]\<rparr>"

definition sample_predict_func :: "RasaModelData \<Rightarrow> error + out" where
  "sample_predict_func batch_in = Inr sample_out"

definition loaded_classifier :: classifier where
  "loaded_classifier =
     \<lparr>component_config = defaults,
      inverted_label_dict = Some [(0, ''bye''), (1, ''greet'')],
      inverted_tag_dict = Some [(1, ''PER''), (0, ''O'')],
      model = Some (DIET_init [(1, ''PER''), (0, ''O'')] defaults),
      predict_func = Some sample_predict_func,
      label_data = None, num_tags = 0, data_example = None, logged = []\<rparr>"

text \<open>
  A classifier as \<^verbatim>\<open>__init__\<close> returns it for the default configuration; training
  data with a single intent, the model data made of it and the classifier after
  \<^verbatim>\<open>train\<close> on it; a message that already carries an entity; and the model data and
  the classifier after \<^verbatim>\<open>train\<close> on the training data with two intents.
\<close>

definition nan_out :: out where
  "nan_out = \<lparr>i_scores = Some [[Num 0.25, NaN, Num 0.75]], e_ids = None\<rparr>"

definition three_label_classifier :: classifier where
  "three_label_classifier =
     loaded_classifier
       \<lparr>inverted_label_dict := Some [(0, ''bye''), (1, ''greet''), (2, ''thanks'')]\<rparr>"

definition untrained_classifier :: classifier where
  "untrained_classifier =
     \<lparr>component_config = defaults\<lparr>SIMILARITY_TYPE := ''inner''\<rparr>,
      inverted_label_dict = None, inverted_tag_dict = None, model = None,
      predict_func = None, label_data = None, num_tags = 0, data_example = None,
      logged = []\<rparr>"

definition hi_example :: Message where
  "hi_example =
     (sample_message ''hi'')
       \<lparr>msg_intent := Some (Text_value ''greet''),
        msg_tokens := Some [\<lparr>tok_text = ''hi'', tok_start = 0, tok_end = 2\<rparr>,
                            \<lparr>tok_text = ''__CLS__'', tok_start = 3, tok_end = 10\<rparr>],
        msg_entities := Some [],
        msg_text_sparse_features := Some (2, 12)\<rparr>"

definition one_label_training_data :: TrainingData where
  "one_label_training_data =
     \<lparr>training_examples = [greet_example, hi_example],
      intent_examples = [greet_example, hi_example],
      entity_examples = [greet_example]\<rparr>"

definition skipped_classifier :: classifier where
  "skipped_classifier =
     untrained_classifier
       \<lparr>inverted_label_dict := Some [(0, ''greet'')],
        inverted_tag_dict := Some [(1, ''PER''), (0, ''O'')],
        label_data := Some \<lparr>text_features = [], label_features = [[(1, 1)]],
                             label_ids = [], tag_ids = []\<rparr>,
        num_tags := 2,
        logged := [(DEBUG, msg_started), (ERROR, msg_cannot_train)]\<rparr>"

definition one_label_model_data :: RasaModelData where
  "one_label_model_data =
     \<lparr>text_features = [[(3, 12), (2, 12)]], label_features = [[(1, 1), (1, 1)]],
      label_ids = [0, 0], tag_ids = [[0, 1, 0], [0, 0]]\<rparr>"

definition incoming_message :: Message where
  "incoming_message =
     (sample_message ''hello Bob'')
       \<lparr>msg_tokens := Some [\<lparr>tok_text = ''hello'', tok_start = 0, tok_end = 5\<rparr>,
                            \<lparr>tok_text = ''Bob'', tok_start = 6, tok_end = 9\<rparr>,
                            \<lparr>tok_text = ''__CLS__'', tok_start = 10, tok_end = 17\<rparr>],
        msg_entities := Some [\<lparr>ent_entity = Some ''name'', ent_start = 6, ent_end = 9,
                               ent_extractor = Some ''SpacyEntityExtractor'',
                               ent_value = Some ''Bob''\<rparr>],
        msg_text_sparse_features := Some (3, 12)\<rparr>"

definition sample_model_data :: RasaModelData where
  "sample_model_data =
     \<lparr>text_features = [[(3, 12), (2, 12)]], label_features = [[(1, 2), (1, 2)]],
      label_ids = [1, 0], tag_ids = [[0, 1, 0], [0, 0]]\<rparr>"

definition trained_classifier :: classifier where
  "trained_classifier =
     untrained_classifier
       \<lparr>inverted_label_dict := Some [(0, ''bye''), (1, ''greet'')],
        inverted_tag_dict := Some [(1, ''PER''), (0, ''O'')],
        label_data := Some \<lparr>text_features = [], label_features = [[(1, 2), (1, 2)]],
                             label_ids = [], tag_ids = []\<rparr>,
        num_tags := 2,
        data_example := Some (first_example sample_model_data),
        model := Some (fit \<lparr>fit_model_data = sample_model_data, fit_epochs = 300,
                             fit_batch_sizes = [64, 256], fit_evaluate_on_num_examples = 0,
                             fit_evaluate_every_num_epochs = 20,
                             fit_batch_strategy = ''balanced'', fit_random_seed = None\<rparr>
                         (DIET_init [(1, ''PER''), (0, ''O'')]
                            (defaults\<lparr>SIMILARITY_TYPE := ''inner''\<rparr>))),
        logged := [(DEBUG, msg_started)]\<rparr>"

section \<open>Properties\<close>

subsection \<open>Entity span merging\<close>

lemma convert_loop_total_aux:
  "(last_tag \<noteq> ''O'' \<longrightarrow> entities \<noteq> []) \<Longrightarrow>
   \<exists>entities' last_tag'. convert_loop (entities, last_tag) ps = Inr (entities', last_tag')"
proof (induction ps arbitrary: entities last_tag)
  case Nil
  then show ?case by simp
next
  case (Cons p ps)
  obtain token tag where p: "p = (token, tag)" by (cases p)
  show ?case
  proof (cases "tag = ''O''")
    case True
    then show ?thesis using Cons.IH [of "''O''" entities] p by simp
  next
    case False
    note tag = this
    show ?thesis
    proof (cases "last_tag = tag")
      case True
      with tag Cons.prems have ne: "entities \<noteq> []" by simp
      show ?thesis
        using Cons.IH [of tag "butlast entities @ [(last entities)\<lparr>ent_end := tok_end token\<rparr>]"]
          p tag True ne by simp
    next
      case False
      show ?thesis
        using Cons.IH [of tag "entities @ [\<lparr>ent_entity = Some tag, ent_start = tok_start token,
                          ent_end = tok_end token, ent_extractor = Some ''DIET'',
                          ent_value = None\<rparr>]"] p tag False by simp
    qed
  qed
qed

lemma convert_tags_to_entities_total:
  "\<exists>entities. convert_tags_to_entities text tokens tags = Inr entities"
proof -
  obtain es lt where "convert_loop ([], ''O'') (zip tokens tags) = Inr (es, lt)"
    using convert_loop_total_aux [of "''O''" "[]" "zip tokens tags"] by auto
  then show ?thesis by (simp add: convert_tags_to_entities_def)
qed

lemma py_slice_substring:
  "py_slice (pre @ v @ post) (int (length pre)) (int (length pre) + int (length v)) = v"
  by (simp add: py_slice_def Let_def)

lemma py_slice_from_the_end_and_clipped:
  "py_slice ''Berlin'' (- 3) 100 = ''lin''" "py_slice ''Berlin'' 4 2 = []"
  "py_slice ''Berlin'' (- 100) 3 = ''Ber''" "py_slice ''Berlin'' 7 9 = []"
  by (simp_all add: py_slice_def Let_def)

text \<open>
  C5. For five tokens tagged \<open>O, PER, PER, O, LOC\<close> the conversion returns exactly two
  entities: a \<open>PER\<close> span from the start of the second token to the end of the third,
  and a \<open>LOC\<close> span over the fifth token alone; the value of each is the slice of the
  text between its start and end offsets. The slice between the offsets at which a
  substring of the text starts and ends is that substring.
\<close>

theorem convert_tags_to_entities_per_per_loc:
  "convert_tags_to_entities text [t0, t1, t2, t3, t4] [''O'', ''PER'', ''PER'', ''O'', ''LOC''] =
     Inr [\<lparr>ent_entity = Some ''PER'', ent_start = tok_start t1, ent_end = tok_end t2,
           ent_extractor = Some ''DIET'',
           ent_value = Some (py_slice text (tok_start t1) (tok_end t2))\<rparr>,
          \<lparr>ent_entity = Some ''LOC'', ent_start = tok_start t4, ent_end = tok_end t4,
           ent_extractor = Some ''DIET'',
           ent_value = Some (py_slice text (tok_start t4) (tok_end t4))\<rparr>]
   \<and> (\<forall>pre v post. text = pre @ v @ post \<longrightarrow>
         py_slice text (int (length pre)) (int (length pre) + int (length v)) = v)"
  by (simp add: convert_tags_to_entities_def set_value_def py_slice_substring)

theorem convert_tags_to_entities_per_per_loc_witness:
  "convert_tags_to_entities ''Hi Tom Smith from Berlin''
     [\<lparr>tok_text = ''Hi'', tok_start = 0, tok_end = 2\<rparr>,
      \<lparr>tok_text = ''Tom'', tok_start = 3, tok_end = 6\<rparr>,
      \<lparr>tok_text = ''Smith'', tok_start = 7, tok_end = 12\<rparr>,
      \<lparr>tok_text = ''from'', tok_start = 13, tok_end = 17\<rparr>,
      \<lparr>tok_text = ''Berlin'', tok_start = 18, tok_end = 24\<rparr>]
     [''O'', ''PER'', ''PER'', ''O'', ''LOC''] =
   Inr [\<lparr>ent_entity = Some ''PER'', ent_start = 3, ent_end = 12,
         ent_extractor = Some ''DIET'', ent_value = Some ''Tom Smith''\<rparr>,
        \<lparr>ent_entity = Some ''LOC'', ent_start = 18, ent_end = 24,
         ent_extractor = Some ''DIET'', ent_value = Some ''Berlin''\<rparr>]"
proof -
  let ?text = "''Hi Tom Smith from Berlin''"
  note c = convert_tags_to_entities_per_per_loc
    [of ?text "\<lparr>tok_text = ''Hi'', tok_start = 0, tok_end = 2\<rparr>"
        "\<lparr>tok_text = ''Tom'', tok_start = 3, tok_end = 6\<rparr>"
        "\<lparr>tok_text = ''Smith'', tok_start = 7, tok_end = 12\<rparr>"
        "\<lparr>tok_text = ''from'', tok_start = 13, tok_end = 17\<rparr>"
        "\<lparr>tok_text = ''Berlin'', tok_start = 18, tok_end = 24\<rparr>"]
  note s = c [THEN conjunct2, rule_format]
  have per: "py_slice ?text 3 12 = ''Tom Smith''"
    using s [of "''Hi ''" "''Tom Smith''" "'' from Berlin''"] by simp
  have loc: "py_slice ?text 18 24 = ''Berlin''"
    using s [of "''Hi Tom Smith from ''" "''Berlin''" "[]"] by simp
  from c [THEN conjunct1] show ?thesis by (simp add: per loc)
qed

subsection \<open>Construction fails on conflicting hidden layer sizes\<close>

text \<open>
  C8. When shared hidden layers are requested and the hidden layer sizes for text and
  label differ, the configuration check and with it the construction of the classifier
  raise \<open>ValueError\<close>; for every other configuration the check returns and the
  classifier is constructed.
\<close>

theorem init_raises_on_shared_layers_with_different_sizes:
  "(SHARE_HIDDEN_LAYERS cfg \<and> HIDDEN_LAYERS_SIZES_TEXT cfg \<noteq> HIDDEN_LAYERS_SIZES_LABEL cfg \<longrightarrow>
      check_config_parameters cfg = Inl ValueError
      \<and> EmbeddingIntentClassifier cfg inv_label_dict inv_tag_dict mdl pred = Inl ValueError)
   \<and> (\<not> (SHARE_HIDDEN_LAYERS cfg \<and> HIDDEN_LAYERS_SIZES_TEXT cfg \<noteq> HIDDEN_LAYERS_SIZES_LABEL cfg) \<longrightarrow>
      (\<exists>c. check_config_parameters cfg = Inr c)
      \<and> (\<exists>self. EmbeddingIntentClassifier cfg inv_label_dict inv_tag_dict mdl pred = Inr self))"
  by (simp add: check_config_parameters_def EmbeddingIntentClassifier_def and_then_def Let_def)

theorem init_raises_on_shared_layers_with_different_sizes_witness:
  "EmbeddingIntentClassifier
     (defaults\<lparr>SHARE_HIDDEN_LAYERS := True, HIDDEN_LAYERS_SIZES_TEXT := [256, 128]\<rparr>)
     None None None None = Inl ValueError
   \<and> (\<exists>self. EmbeddingIntentClassifier defaults None None None None = Inr self)"
  using init_raises_on_shared_layers_with_different_sizes
      [of "defaults\<lparr>SHARE_HIDDEN_LAYERS := True, HIDDEN_LAYERS_SIZES_TEXT := [256, 128]\<rparr>"
          None None None None]
    init_raises_on_shared_layers_with_different_sizes [of defaults None None None None]
  by (simp add: defaults_def)

subsection \<open>Prediction looks up attributes that are never bound\<close>

lemma setattr_simps [simp]: "attrs (setattr a d) = insert a (attrs d)"
  "tf_layers (setattr a d) = tf_layers d" "tf_layers_embed (setattr a d) = tf_layers_embed d"
  "diet_config (setattr a d) = diet_config d"
  by (simp_all add: setattr_def)

lemma DIET_init_attrs: "attrs (DIET_init inv_tag_dict cfg) = DIET_instance_attrs"
  unfolding DIET_init_def Let_def prepare_layers_def prepare_sequence_layers_def prepare_mask_lm_layers_def
    prepare_intent_classification_layers_def prepare_entity_recognition_layers_def DIET_instance_attrs_def
  by simp

lemma DIET_init_layers:
  "tf_layers (DIET_init inv_tag_dict cfg) =
     [''sparse_dropout'', ''sparse_to_dense'', ''ffnn'', ''transformer'', ''embed'',
      ''input_mask'', ''loss_mask'', ''loss_label'', ''crf'', ''crf_f1_score'']"
  "tf_layers_embed (DIET_init inv_tag_dict cfg) = [''text_mask'', ''text_token'', ''text'', ''label'', ''logits'']"
  "diet_config (DIET_init inv_tag_dict cfg) = cfg"
  unfolding DIET_init_def Let_def prepare_layers_def prepare_sequence_layers_def prepare_mask_lm_layers_def
    prepare_intent_classification_layers_def prepare_entity_recognition_layers_def 
  by simp_all

lemma rebound_names:
  "''training'' \<in> DIET_instance_attrs" "''all_labels_embed'' \<in> DIET_instance_attrs"
  "''batch_tuple_sizes'' \<in> DIET_instance_attrs" "''data_signature'' \<in> DIET_instance_attrs"
  "''config'' \<in> DIET_instance_attrs" "''_tf_layers'' \<in> DIET_instance_attrs"
  by (simp_all add: DIET_instance_attrs_def)

lemma unbound_names:
  "''_embed'' \<notin> DIET_instance_attrs" "''_loss_label'' \<notin> DIET_instance_attrs"
  "''_crf'' \<notin> DIET_instance_attrs"
  "''_embed'' \<notin> set DIET_class_attrs" "''_loss_label'' \<notin> set DIET_class_attrs"
  "''_crf'' \<notin> set DIET_class_attrs"
  by (simp_all add: DIET_instance_attrs_def DIET_class_attrs_def)

lemma class_names:
  "''_create_sequence'' \<in> set DIET_class_attrs"
  "''_combine_sparse_dense_features'' \<in> set DIET_class_attrs"
  by (simp_all add: DIET_class_attrs_def)

lemma DIET_apply_attrs:
  "attrs d = DIET_instance_attrs \<Longrightarrow> attrs (DIET_apply op d) = DIET_instance_attrs"
  using rebound_names
  by (cases op) (auto simp: set_training_phase_def build_for_predict_def fit_def)

lemma DIET_apply_layers:
  "tf_layers (DIET_apply op d) = tf_layers d"
  "tf_layers_embed (DIET_apply op d) = tf_layers_embed d"
  "diet_config (DIET_apply op d) = diet_config d"
  by (cases op; simp add: set_training_phase_def build_for_predict_def fit_def)+

lemma fold_DIET_apply_attrs:
  "attrs d = DIET_instance_attrs \<Longrightarrow> attrs (fold DIET_apply ops d) = DIET_instance_attrs"
  by (induction ops arbitrary: d) (simp_all add: DIET_apply_attrs)

lemma fold_DIET_apply_layers:
  "tf_layers (fold DIET_apply ops d) = tf_layers d"
  "tf_layers_embed (fold DIET_apply ops d) = tf_layers_embed d"
  "diet_config (fold DIET_apply ops d) = diet_config d"
  by (induction ops arbitrary: d; simp add: DIET_apply_layers)+

lemma accesses_append:
  "accesses base d (xs @ ys) =
     (case accesses base d xs of Inl e \<Rightarrow> Inl e | Inr u \<Rightarrow> accesses base d ys)"
  by (induction xs) (simp_all split: sum.splits)

lemma getattr_bound: "a \<in> attrs d \<or> a \<in> set DIET_class_attrs \<or> a \<in> base \<Longrightarrow> getattr base d a = Inr ()"
  by (simp add: getattr_def)

lemma getattr_unbound: "a \<notin> attrs d \<Longrightarrow> a \<notin> set DIET_class_attrs \<Longrightarrow> a \<notin> base \<Longrightarrow> getattr base d a = Inl (AttributeError a)"
  by (simp add: getattr_def)

lemma getlayer_bound: "''_tf_layers'' \<in> attrs d \<Longrightarrow> k \<in> set (tf_layers d) \<Longrightarrow> getlayer base d k = Inr ()"
  by (simp add: getlayer_def getattr_def)

lemma combine_accesses:
  assumes "attrs d = DIET_instance_attrs"
    and "''sparse_dropout'' \<in> set (tf_layers d)" and "''sparse_to_dense'' \<in> set (tf_layers d)"
  shows "accesses base d (combine_sparse_dense_features features sd) = Inr ()"
proof -
  have t: "getattr base d ''training'' = Inr ()"
    using assms(1) rebound_names(1) by (simp add: getattr_bound)
  have l1: "getlayer base d ''sparse_dropout'' = Inr ()"
    using assms rebound_names(6) by (simp add: getlayer_bound)
  have l2: "getlayer base d ''sparse_to_dense'' = Inr ()"
    using assms rebound_names(6) by (simp add: getlayer_bound)
  show ?thesis
  proof (cases sd)
    case True
    then show ?thesis
      by (induction features) (simp_all add: combine_sparse_dense_features_def t l1 l2)
  next
    case False
    then show ?thesis
      by (induction features) (simp_all add: combine_sparse_dense_features_def t l1 l2)
  qed
qed

lemma create_sequence_accesses:
  assumes "attrs d = DIET_instance_attrs"
    and "tf_layers d = [''sparse_dropout'', ''sparse_to_dense'', ''ffnn'', ''transformer'', ''embed'',
      ''input_mask'', ''loss_mask'', ''loss_label'', ''crf'', ''crf_f1_score'']"
  shows "accesses base d (create_sequence d features masked) = Inr ()"
proof -
  have t: "getattr base d ''training'' = Inr ()" "getattr base d ''config'' = Inr ()"
    using assms(1) rebound_names by (simp_all add: getattr_bound)
  have c: "getattr base d ''_combine_sparse_dense_features'' = Inr ()"
    using class_names by (simp add: getattr_bound)
  have l: "getlayer base d ''input_mask'' = Inr ()" "getlayer base d ''transformer'' = Inr ()"
    using assms rebound_names(6) by (simp_all add: getlayer_bound)
  have cmb: "accesses base d (combine_sparse_dense_features features (SPARSE_INPUT_DROPOUT (diet_config d))) = Inr ()"
    using assms by (intro combine_accesses) simp_all
  show ?thesis
    by (simp add: create_sequence_def accesses_append t c l cmb)
qed

text \<open>
  C1. Let the base class provide \<^verbatim>\<open>batch_to_model_data_format\<close> and none of the
  names \<^verbatim>\<open>_embed\<close>, \<^verbatim>\<open>_loss_label\<close> and \<^verbatim>\<open>_crf\<close>. Then in every state
  that a \<^verbatim>\<open>DIET\<close> instance reaches from its construction, the lookup of each of the
  three names raises \<open>AttributeError\<close>, while the layers are found under
  \<^verbatim>\<open>self._tf_layers\<close>; and whenever intent classification or entity recognition is
  enabled, \<^verbatim>\<open>predict\<close> raises \<open>AttributeError\<close> for \<^verbatim>\<open>_embed\<close> on every batch
  and returns no scores or tags.
\<close>

theorem predict_reaches_unassigned_attribute:
  assumes "''_embed'' \<notin> base" and "''_loss_label'' \<notin> base" and "''_crf'' \<notin> base"
    and "''batch_to_model_data_format'' \<in> base"
    and "d = fold DIET_apply ops (DIET_init inv_tag_dict cfg)"
  shows "getattr base d ''_embed'' = Inl (AttributeError ''_embed'')
       \<and> getattr base d ''_loss_label'' = Inl (AttributeError ''_loss_label'')
       \<and> getattr base d ''_crf'' = Inl (AttributeError ''_crf'')
       \<and> accesses base d [Embed_layer ''text'', Layer ''loss_label'',
                           Embed_layer ''logits'', Layer ''crf''] = Inr ()
       \<and> (INTENT_CLASSIFICATION cfg \<or> ENTITY_RECOGNITION cfg \<longrightarrow>
            DIET_predict base d features = Inl (AttributeError ''_embed''))"
proof -
  have a: "attrs d = DIET_instance_attrs"
    using assms(5) by (simp add: fold_DIET_apply_attrs DIET_init_attrs)
  have l: "tf_layers d = [''sparse_dropout'', ''sparse_to_dense'', ''ffnn'', ''transformer'', ''embed'',
      ''input_mask'', ''loss_mask'', ''loss_label'', ''crf'', ''crf_f1_score'']"
    "tf_layers_embed d = [''text_mask'', ''text_token'', ''text'', ''label'', ''logits'']"
    "diet_config d = cfg"
    using assms(5) by (simp_all add: fold_DIET_apply_layers DIET_init_layers)
  have e1: "getattr base d ''_embed'' = Inl (AttributeError ''_embed'')"
    using a assms(1) unbound_names by (simp add: getattr_unbound)
  have e2: "getattr base d ''_loss_label'' = Inl (AttributeError ''_loss_label'')"
    using a assms(2) unbound_names by (simp add: getattr_unbound)
  have e3: "getattr base d ''_crf'' = Inl (AttributeError ''_crf'')"
    using a assms(3) unbound_names by (simp add: getattr_unbound)
  have g: "getattr base d ''batch_to_model_data_format'' = Inr ()"
    "getattr base d ''data_signature'' = Inr ()" "getattr base d ''_create_sequence'' = Inr ()"
    "getattr base d ''config'' = Inr ()" "getattr base d ''_tf_layers'' = Inr ()"
    using a assms(4) rebound_names class_names by (simp_all add: getattr_bound)
  have ly: "getlayer base d ''embed'' = Inr ()" "getlayer base d ''loss_label'' = Inr ()"
    "getlayer base d ''crf'' = Inr ()"
    using a l(1) rebound_names(6) by (simp_all add: getlayer_bound)
  have tr: "accesses base d [Embed_layer ''text'', Layer ''loss_label'', Embed_layer ''logits'', Layer ''crf''] = Inr ()"
    by (simp add: ly l(2))
  have cs: "accesses base d (create_sequence d features False) = Inr ()"
    using a l(1) by (rule create_sequence_accesses)
  have pre: "accesses base d ([Attr ''batch_to_model_data_format'', Attr ''data_signature'',
                   Attr ''_create_sequence''] @ create_sequence d features False @ [Attr ''config'']) = Inr ()"
    by (simp add: accesses_append cs g)
  have p: "DIET_predict base d features = Inl (AttributeError ''_embed'')"
    if "INTENT_CLASSIFICATION cfg \<or> ENTITY_RECOGNITION cfg"
  proof (cases "INTENT_CLASSIFICATION cfg")
    case True
    then show ?thesis
      unfolding DIET_predict_def pre by (simp add: and_then_def e1 l(3))
  next
    case False
    with that have "ENTITY_RECOGNITION cfg" by simp
    with False show ?thesis
      unfolding DIET_predict_def pre by (simp add: and_then_def e1 g l(3))
  qed
  show ?thesis
    by (simp only: e1 e2 e3 tr simp_thms) (rule impI, rule p)
qed


theorem predict_reaches_unassigned_attribute_witness:
  "DIET_predict sample_base
     (fold DIET_apply [Set_training_phase False, Assign_data_signature, Build_for_predict]
        (DIET_init [(0, ''O''), (1, ''PER'')] defaults)) [True, False]
   = Inl (AttributeError ''_embed'')"
  using predict_reaches_unassigned_attribute [of sample_base
      "fold DIET_apply [Set_training_phase False, Assign_data_signature, Build_for_predict]
        (DIET_init [(0, ''O''), (1, ''PER'')] defaults)"
      "[Set_training_phase False, Assign_data_signature, Build_for_predict]"
      "[(0, ''O''), (1, ''PER'')]" defaults "[True, False]"]
  by (simp add: sample_base_def defaults_def)

subsection \<open>The label and tag dictionaries\<close>

lemma update_fresh: "k \<notin> fst ` set al \<Longrightarrow> AList.update k v al = al @ [(k, v)]"
  by (induction al) auto

lemma fold_update_distinct:
  "distinct (map fst (acc @ ps)) \<Longrightarrow> fold (\<lambda>(k, v) d. AList.update k v d) ps acc = acc @ ps"
proof (induction ps arbitrary: acc)
  case Nil
  then show ?case by simp
next
  case (Cons p ps)
  obtain k v where p: "p = (k, v)" by (cases p)
  from Cons.prems p have fresh: "k \<notin> fst ` set acc" by auto
  from Cons.prems p have "distinct (map fst ((acc @ [(k, v)]) @ ps))" by simp
  from Cons.IH [OF this] show ?case
    by (simp add: p update_fresh [OF fresh])
qed

lemma dict_of_distinct: "distinct (map fst ps) \<Longrightarrow> dict_of ps = ps"
  using fold_update_distinct [of "[]" ps] by (simp add: dict_of_def)

lemma distinct_swapped_keys:
  "distinct (map snd d) \<Longrightarrow> distinct (map fst (map (\<lambda>(k, v). (v, k)) d))"
proof -
  assume d: "distinct (map snd d)"
  have "map fst (map (\<lambda>(k, v). (v, k)) d) = map snd d" by (induction d) auto
  with d show ?thesis by (simp only:)
qed

lemma invert_dict_distinct:
  "distinct (map snd d) \<Longrightarrow> invert_dict d = map (\<lambda>(k, v). (v, k)) d"
  unfolding invert_dict_def by (rule dict_of_distinct) (rule distinct_swapped_keys)

lemma getitem_Inr_iff: "getitem d k = Inr v \<longleftrightarrow> map_of d k = Some v"
  by (cases "map_of d k") (simp_all add: getitem_def)

lemma getitem_invert:
  assumes "distinct (map fst d)" and "distinct (map snd d)"
  shows "getitem (invert_dict d) v = Inr k \<longleftrightarrow> getitem d k = Inr v"
proof -
  have "map_of (map (\<lambda>(k, v). (v, k)) d) v = Some k \<longleftrightarrow> (v, k) \<in> set (map (\<lambda>(k, v). (v, k)) d)"
    using distinct_swapped_keys [OF assms(2)] by (rule map_of_eq_Some_iff)
  also have "\<dots> \<longleftrightarrow> (k, v) \<in> set d" by auto
  also have "\<dots> \<longleftrightarrow> map_of d k = Some v"
    using assms(1) by (simp add: map_of_eq_Some_iff)
  finally have "map_of (map (\<lambda>(k, v). (v, k)) d) v = Some k \<longleftrightarrow> map_of d k = Some v" .
  then show ?thesis
    by (simp only: getitem_Inr_iff invert_dict_distinct [OF assms(2)])
qed

lemma getitem_key: "k \<in> fst ` set d \<Longrightarrow> \<exists>v. getitem d k = Inr v"
  by (cases "map_of d k") (auto simp: getitem_def map_of_eq_None_iff)

lemma sorted_set_props: "distinct (sorted_set xs)" "set (sorted_set xs) = set xs"
  by (simp_all add: sorted_set_def)

lemma sorted_set_cong: "set xs = set ys \<Longrightarrow> sorted_set xs = sorted_set ys"
  unfolding sorted_set_def by (simp flip: sorted_list_of_set_sort_remdups)

lemma enumerated_dict:
  assumes "distinct ks"
  shows "dict_of (map (\<lambda>(idx, x). (x, idx)) (enumerate_from start ks)) = zip ks [start ..< start + length ks]"
proof -
  have e: "map (\<lambda>(idx, x). (x, idx)) (enumerate_from start ks) = zip ks [start ..< start + length ks]"
    unfolding enumerate_from_def by (simp add: zip_commute [of ks] map_prod_def [symmetric] prod.swap_def case_prod_beta')
  show ?thesis unfolding e using assms by (simp add: dict_of_distinct)
qed

lemma distinct_values_update:
  "distinct (map snd al) \<Longrightarrow> v \<notin> snd ` set al \<Longrightarrow> distinct (map snd (AList.update k v al))"
proof (induction al)
  case Nil
  then show ?case by simp
next
  case (Cons p al)
  have sub: "snd ` set (AList.update k v al) \<subseteq> insert v (snd ` set al)"
    by (induction al) auto
  show ?case
  proof (cases "fst p = k")
    case True
    with Cons.prems show ?thesis by auto
  next
    case False
    with Cons sub show ?thesis by auto
  qed
qed


lemma list_ex_is_dict_value:
  "list_ex is_dict_value (map (\<lambda>example. get_attribute example (Some INTENT_ATTRIBUTE)) exs)
     \<longleftrightarrow> (\<exists>ex \<in> set exs. is_dict_value (msg_intent ex))"
  by (induction exs) simp_all

lemma text_values_set:
  "name \<in> set (text_values (map (\<lambda>example. get_attribute example (Some INTENT_ATTRIBUTE)) exs))
     \<longleftrightarrow> (\<exists>ex \<in> set exs. msg_intent ex = Some (Text_value name))"
  by (induction exs) (auto simp: text_values_def split: option.splits attr_value.splits)

lemma zip_upt_keys: "fst ` set (zip ks [start ..< start + length ks]) = set ks"
proof -
  have "map fst (zip ks [start ..< start + length ks]) = ks" by (rule map_fst_zip) simp
  then have "set (map fst (zip ks [start ..< start + length ks])) = set ks" by (simp only:)
  then show ?thesis by (simp only: set_map)
qed

lemma zip_upt_distinct:
  "distinct ks \<Longrightarrow> distinct (map fst (zip ks [start ..< start + length ks]))"
  "distinct (map snd (zip ks [start ..< start + length ks]))"
  by simp_all

lemma create_label_id_dict_typed:
  assumes "\<forall>ex \<in> set (intent_examples td). \<not> is_dict_value (msg_intent ex)"
  shows "\<exists>ks. distinct ks
           \<and> set ks = {name. \<exists>ex \<in> set (intent_examples td). msg_intent ex = Some (Text_value name)}
           \<and> create_label_id_dict td INTENT_ATTRIBUTE = Inr (zip ks [0 ..< length ks])"
proof -
  let ?vals = "map (\<lambda>example. get_attribute example (Some INTENT_ATTRIBUTE)) (intent_examples td)"
  let ?ks = "sorted_set (text_values ?vals)"
  have no: "\<not> list_ex is_dict_value ?vals"
    using assms by (simp only: list_ex_is_dict_value) simp
  have d: "distinct ?ks" by (rule sorted_set_props)
  have s: "set ?ks = {name. \<exists>ex \<in> set (intent_examples td). msg_intent ex = Some (Text_value name)}"
    using text_values_set [of _ "intent_examples td"] by (auto simp: sorted_set_props(2))
  have "create_label_id_dict td INTENT_ATTRIBUTE = Inr (zip ?ks [0 ..< length ?ks])"
    using no enumerated_dict [OF d, of 0] by (simp add: create_label_id_dict_def Let_def)
  with d s show ?thesis by blast
qed

lemma entities_of_typed:
  "\<forall>ex \<in> set exs. msg_entities ex \<noteq> None \<Longrightarrow>
   \<exists>es. entities_of exs = Inr es
      \<and> set es = {e. \<exists>ex \<in> set exs. \<exists>l. msg_entities ex = Some l \<and> e \<in> set l}"
proof (induction exs)
  case Nil
  then show ?case by simp
next
  case (Cons ex exs)
  then obtain l where l: "msg_entities ex = Some l" by auto
  from Cons obtain es where es: "entities_of exs = Inr es"
    "set es = {e. \<exists>ex \<in> set exs. \<exists>l. msg_entities ex = Some l \<and> e \<in> set l}" by auto
  have "entities_of (ex # exs) = Inr (l @ es)" using l es(1) by simp
  moreover have "set (l @ es) = {e. \<exists>x \<in> set (ex # exs). \<exists>l. msg_entities x = Some l \<and> e \<in> set l}"
    using l es(2) by auto
  ultimately show ?case by blast
qed

lemma tag_names_set:
  "set (concat (map (\<lambda>e. case ent_entity e of None \<Rightarrow> [] | Some t \<Rightarrow> [t]) es))
     = {tag. \<exists>e \<in> set es. ent_entity e = Some tag}"
  by (induction es) (auto split: option.splits)

lemma create_tag_id_dict_typed:
  assumes "\<forall>ex \<in> set (entity_examples td). msg_entities ex \<noteq> None"
  shows "\<exists>ts. distinct ts
           \<and> set ts = {tag. \<exists>ex \<in> set (entity_examples td). \<exists>l e.
                               msg_entities ex = Some l \<and> e \<in> set l \<and> ent_entity e = Some tag}
           \<and> create_tag_id_dict td = Inr (AList.update ''O'' 0 (zip ts [1 ..< 1 + length ts]))"
proof -
  from entities_of_typed [OF assms] obtain es where es:
    "entities_of (entity_examples td) = Inr es"
    "set es = {e. \<exists>ex \<in> set (entity_examples td). \<exists>l. msg_entities ex = Some l \<and> e \<in> set l}"
    by blast
  let ?ts = "sorted_set (concat (map (\<lambda>e. case ent_entity e of None \<Rightarrow> [] | Some t \<Rightarrow> [t]) es))"
  have d: "distinct ?ts" by (rule sorted_set_props)
  have s: "set ?ts = {tag. \<exists>ex \<in> set (entity_examples td). \<exists>l e.
                               msg_entities ex = Some l \<and> e \<in> set l \<and> ent_entity e = Some tag}"
  proof -
    have "set ?ts = {tag. \<exists>e \<in> set es. ent_entity e = Some tag}"
      by (simp only: sorted_set_props(2) tag_names_set)
    also have "\<dots> = {tag. \<exists>ex \<in> set (entity_examples td). \<exists>l e.
                               msg_entities ex = Some l \<and> e \<in> set l \<and> ent_entity e = Some tag}"
      unfolding es(2) by blast
    finally show ?thesis .
  qed
  have "create_tag_id_dict td = Inr (AList.update ''O'' 0 (zip ?ts [1 ..< 1 + length ?ts]))"
    using es(1) enumerated_dict [OF d, of 1]
    by (simp add: create_tag_id_dict_def and_then_def Let_def)
  with d s show ?thesis by blast
qed

lemma tag_dict_distinct:
  assumes "distinct ts"
  shows "distinct (map fst (AList.update ''O'' 0 (zip ts [1 ..< 1 + length ts])))"
    and "distinct (map snd (AList.update ''O'' 0 (zip ts [1 ..< 1 + length ts])))"
    and "getitem (AList.update ''O'' 0 (zip ts [1 ..< 1 + length ts])) ''O'' = Inr 0"
    and "fst ` set (zip ts [1 ..< 1 + length ts]) \<subseteq> fst ` set (AList.update ''O'' 0 (zip ts [1 ..< 1 + length ts]))"
proof -
  let ?d = "zip ts [1 ..< 1 + length ts]"
  show "distinct (map fst (AList.update ''O'' 0 ?d))"
    using assms by (intro distinct_update) simp
  have "(0::nat) \<notin> snd ` set ?d"
    by (auto dest!: set_zip_rightD)
  then show "distinct (map snd (AList.update ''O'' 0 ?d))"
    by (intro distinct_values_update) simp_all
  show "getitem (AList.update ''O'' 0 ?d) ''O'' = Inr 0"
    by (simp add: getitem_def update_conv')
  show "fst ` set ?d \<subseteq> fst ` set (AList.update ''O'' 0 ?d)"
    by (simp add: dom_update) blast
qed


lemma sample_label_id_dict: "create_label_id_dict sample_training_data INTENT_ATTRIBUTE = Inr [(''bye'', 0), (''greet'', 1)]"
  by (simp add: create_label_id_dict_def sample_training_data_def greet_example_def bye_example_def
      sample_message_def is_dict_value_def text_values_def sorted_set_def enumerate_from_def dict_of_def Let_def)

lemma sample_tag_id_dict: "create_tag_id_dict sample_training_data = Inr [(''PER'', 1), (''O'', 0)]"
  by (simp add: create_tag_id_dict_def sample_training_data_def greet_example_def bye_example_def
      sample_message_def and_then_def sorted_set_def enumerate_from_def dict_of_def Let_def)

lemma preprocess_train_data_result:
  assumes "preprocess_train_data ext self td = Inr (self', md)"
  shows "\<exists>label_id_dict ld tag_id_dict.
           create_label_id_dict td INTENT_ATTRIBUTE = Inr label_id_dict
         \<and> create_label_data td label_id_dict INTENT_ATTRIBUTE = Inr ld
         \<and> create_tag_id_dict td = Inr tag_id_dict
         \<and> self' = self\<lparr>inverted_label_dict := Some (invert_dict label_id_dict),
                        label_data := Some ld,
                        inverted_tag_dict := Some (invert_dict tag_id_dict),
                        num_tags := length (invert_dict tag_id_dict)\<rparr>"
  using assms
  by (auto simp: preprocess_train_data_def and_then_def Let_def split: sum.splits)

text \<open>
  C6. Let no intent example carry a prediction dictionary as its intent and let every
  entity example carry a list of entities, so that both dictionaries are built. Then the
  label dictionary and the tag dictionary are bijections onto their ids: looking an
  observed label or tag up and looking the id up in the inverted dictionary gives the
  name back, the inverted dictionaries hold exactly the reversed pairs, tag id 0 stands
  for \<open>O\<close>, and these inverted dictionaries are those that the preprocessing stores.
\<close>

theorem label_and_tag_dicts_are_bijections:
  assumes "\<forall>ex \<in> set (intent_examples td). \<not> is_dict_value (msg_intent ex)"
    and "\<forall>ex \<in> set (entity_examples td). msg_entities ex \<noteq> None"
  shows "\<exists>label_id_dict tag_id_dict.
      create_label_id_dict td INTENT_ATTRIBUTE = Inr label_id_dict
    \<and> create_tag_id_dict td = Inr tag_id_dict
    \<and> (\<forall>ex name. ex \<in> set (intent_examples td) \<and> msg_intent ex = Some (Text_value name) \<longrightarrow>
          (\<exists>i. getitem label_id_dict name = Inr i
               \<and> getitem (invert_dict label_id_dict) i = Inr name))
    \<and> (\<forall>ex l e tag. ex \<in> set (entity_examples td) \<and> msg_entities ex = Some l \<and> e \<in> set l
                     \<and> ent_entity e = Some tag \<longrightarrow>
          (\<exists>i. getitem tag_id_dict tag = Inr i
               \<and> getitem (invert_dict tag_id_dict) i = Inr tag))
    \<and> (\<forall>i name. getitem (invert_dict label_id_dict) i = Inr name \<longleftrightarrow> getitem label_id_dict name = Inr i)
    \<and> (\<forall>i tag. getitem (invert_dict tag_id_dict) i = Inr tag \<longleftrightarrow> getitem tag_id_dict tag = Inr i)
    \<and> getitem tag_id_dict ''O'' = Inr 0
    \<and> getitem (invert_dict tag_id_dict) 0 = Inr ''O''
    \<and> (\<forall>ext self self' md. preprocess_train_data ext self td = Inr (self', md) \<longrightarrow>
          inverted_label_dict self' = Some (invert_dict label_id_dict)
          \<and> inverted_tag_dict self' = Some (invert_dict tag_id_dict))"
proof -
  from create_label_id_dict_typed [OF assms(1)] obtain ks where ks: "distinct ks"
    "set ks = {name. \<exists>ex \<in> set (intent_examples td). msg_intent ex = Some (Text_value name)}"
    "create_label_id_dict td INTENT_ATTRIBUTE = Inr (zip ks [0 ..< length ks])"
    by blast
  from create_tag_id_dict_typed [OF assms(2)] obtain ts where ts: "distinct ts"
    "set ts = {tag. \<exists>ex \<in> set (entity_examples td). \<exists>l e.
                  msg_entities ex = Some l \<and> e \<in> set l \<and> ent_entity e = Some tag}"
    "create_tag_id_dict td = Inr (AList.update ''O'' 0 (zip ts [1 ..< 1 + length ts]))"
    by blast
  let ?ld = "zip ks [0 ..< length ks]"
  let ?tg = "AList.update ''O'' 0 (zip ts [1 ..< 1 + length ts])"
  have ld_inv: "getitem (invert_dict ?ld) i = Inr name \<longleftrightarrow> getitem ?ld name = Inr i" for i name
    using zip_upt_distinct [of ks 0] ks(1) by (intro getitem_invert) simp_all
  have tg_inv: "getitem (invert_dict ?tg) i = Inr tag \<longleftrightarrow> getitem ?tg tag = Inr i" for i tag
    using tag_dict_distinct(1,2) [OF ts(1)] by (rule getitem_invert)
  have ld_obs: "\<exists>i. getitem ?ld name = Inr i \<and> getitem (invert_dict ?ld) i = Inr name"
    if "ex \<in> set (intent_examples td)" "msg_intent ex = Some (Text_value name)" for ex name
  proof -
    from that ks(2) have "name \<in> set ks" by blast
    then have "name \<in> fst ` set ?ld" using zip_upt_keys [of ks 0] by simp
    from getitem_key [OF this] obtain i where "getitem ?ld name = Inr i" by blast
    with ld_inv show ?thesis by blast
  qed
  have tg_obs: "\<exists>i. getitem ?tg tag = Inr i \<and> getitem (invert_dict ?tg) i = Inr tag"
    if "ex \<in> set (entity_examples td)" "msg_entities ex = Some l" "e \<in> set l" "ent_entity e = Some tag"
    for ex l e tag
  proof -
    from that ts(2) have "tag \<in> set ts" by blast
    then have "tag \<in> fst ` set (zip ts [1 ..< 1 + length ts])" by (simp only: zip_upt_keys)
    with tag_dict_distinct(4) [OF ts(1)] have "tag \<in> fst ` set ?tg" by blast
    from getitem_key [OF this] obtain i where "getitem ?tg tag = Inr i" by blast
    with tg_inv show ?thesis by blast
  qed
  have o: "getitem ?tg ''O'' = Inr 0" by (rule tag_dict_distinct(3) [OF ts(1)])
  then have o': "getitem (invert_dict ?tg) 0 = Inr ''O''" by (simp only: tg_inv)
  have pre: "inverted_label_dict self' = Some (invert_dict ?ld)
          \<and> inverted_tag_dict self' = Some (invert_dict ?tg)"
    if "preprocess_train_data ext self td = Inr (self', md)" for ext self self' md
    using preprocess_train_data_result [OF that] ks(3) ts(3) by auto
  show ?thesis
    apply (rule exI [of _ ?ld], rule exI [of _ ?tg])
    apply (intro conjI allI impI)
    using ks(3) ts(3) ld_obs tg_obs ld_inv tg_inv o o' pre by blast+
qed

theorem label_and_tag_dicts_are_bijections_witness:
  "create_label_id_dict sample_training_data INTENT_ATTRIBUTE = Inr [(''bye'', 0), (''greet'', 1)]
   \<and> create_tag_id_dict sample_training_data = Inr [(''PER'', 1), (''O'', 0)]
   \<and> getitem (invert_dict [(''bye'', 0::nat), (''greet'', 1)]) 1 = Inr ''greet''
   \<and> getitem (invert_dict [(''PER'', 1::nat), (''O'', 0)]) 0 = Inr ''O''"
proof -
  have h1: "\<forall>ex \<in> set (intent_examples sample_training_data). \<not> is_dict_value (msg_intent ex)"
    by (simp add: sample_training_data_def greet_example_def bye_example_def is_dict_value_def)
  have h2: "\<forall>ex \<in> set (entity_examples sample_training_data). msg_entities ex \<noteq> None"
    by (simp add: sample_training_data_def greet_example_def)
  have l: "create_label_id_dict sample_training_data INTENT_ATTRIBUTE = Inr [(''bye'', 0), (''greet'', 1)]"
    by (rule sample_label_id_dict)
  have t: "create_tag_id_dict sample_training_data = Inr [(''PER'', 1), (''O'', 0)]"
    by (rule sample_tag_id_dict)
  have g: "getitem [(''bye'', 0::nat), (''greet'', 1)] ''greet'' = Inr 1"
    by (simp add: getitem_def)
  from label_and_tag_dicts_are_bijections [OF h1 h2] l t g show ?thesis by auto
qed

subsection \<open>The intent ranking\<close>

lemma np_key_inj: "np_key a = np_key b \<Longrightarrow> a = b"
  by (cases a; cases b) simp_all

lemma is_argsort_props:
  assumes "is_argsort f"
  shows "length (f xs) = length xs" "set (f xs) = {0 ..< length xs}"
    "sorted (map (\<lambda>i. np_key (xs ! i)) (f xs))"
proof -
  from assms have d: "distinct (f xs)" and s: "set (f xs) = {0 ..< length xs}"
    and o: "sorted (map (\<lambda>i. np_key (xs ! i)) (f xs))"
    unfolding is_argsort_def by blast+
  from distinct_card [OF d] s show "length (f xs) = length xs" by simp
  from s show "set (f xs) = {0 ..< length xs}" .
  from o show "sorted (map (\<lambda>i. np_key (xs ! i)) (f xs))" .
qed

lemma stable_argsort_is_argsort: "is_argsort stable_argsort"
  by (simp add: is_argsort_def stable_argsort_def)

lemma sort_descending_props:
  "length (sort_descending xs) = length xs"
  "set (sort_descending xs) = set xs"
  "sorted_wrt (\<lambda>a b. np_key b \<le> np_key a) (sort_descending xs)"
proof -
  show "length (sort_descending xs) = length xs" "set (sort_descending xs) = set xs"
    by (simp_all add: sort_descending_def)
  have "sorted (map np_key (sort_key np_key (rev xs)))" by (rule sorted_sort_key)
  then show "sorted_wrt (\<lambda>a b. np_key b \<le> np_key a) (sort_descending xs)"
    by (simp add: sort_descending_def sorted_wrt_rev sorted_map)
qed

lemma sorted_last_greatest:
  "sorted ys \<Longrightarrow> y \<in> set ys \<Longrightarrow> y \<le> last ys"
proof -
  assume s: "sorted ys" and y: "y \<in> set ys"
  then obtain i where i: "i < length ys" "ys ! i = y" by (auto simp: in_set_conv_nth)
  then have "ys \<noteq> []" by auto
  then have "last ys = ys ! (length ys - 1)" by (rule last_conv_nth)
  moreover have "ys ! i \<le> ys ! (length ys - 1)"
    using s i(1) by (intro sorted_nth_mono) auto
  ultimately show ?thesis using i(2) by simp
qed

lemma hd_sort_descending:
  assumes "xs \<noteq> []"
  shows "hd (sort_descending xs) \<in> set xs"
    "\<forall>x \<in> set xs. np_key x \<le> np_key (hd (sort_descending xs))"
proof -
  let ?ys = "sort_key np_key (rev xs)"
  have ne: "?ys \<noteq> []" using assms by (metis length_0_conv length_rev length_sort)
  have h: "hd (sort_descending xs) = last ?ys"
    using ne by (simp add: sort_descending_def hd_rev)
  show "hd (sort_descending xs) \<in> set xs" using last_in_set [OF ne] h by simp
  have l: "last (map np_key ?ys) = np_key (last ?ys)" using ne by (rule last_map)
  show "\<forall>x \<in> set xs. np_key x \<le> np_key (hd (sort_descending xs))"
  proof
    fix x assume "x \<in> set xs"
    then have "np_key x \<in> set (map np_key ?ys)" by simp
    from sorted_last_greatest [OF sorted_sort_key this] l h
    show "np_key x \<le> np_key (hd (sort_descending xs))" by simp
  qed
qed

lemma hd_rev_argsort:
  assumes "is_argsort f" and "xs \<noteq> []"
  shows "hd (rev (f xs)) < length xs"
    "\<forall>x \<in> set xs. np_key x \<le> np_key (xs ! hd (rev (f xs)))"
proof -
  let ?js = "f xs"
  note p = is_argsort_props [OF assms(1), of xs]
  have ne: "?js \<noteq> []" using assms(2) p(1) by auto
  have h: "hd (rev ?js) = last ?js" using ne by (simp add: hd_rev)
  have mem: "last ?js \<in> {0 ..< length xs}"
    using last_in_set [OF ne] by (simp only: p(2))
  then show "hd (rev ?js) < length xs" using h by simp
  have l: "last (map (\<lambda>i. np_key (xs ! i)) ?js) = np_key (xs ! last ?js)"
    using ne by (rule last_map)
  show "\<forall>x \<in> set xs. np_key x \<le> np_key (xs ! hd (rev ?js))"
  proof
    fix x assume "x \<in> set xs"
    then obtain i where i: "i < length xs" "xs ! i = x" by (auto simp: in_set_conv_nth)
    then have "i \<in> set ?js" by (simp add: p(2))
    then have "np_key x \<in> set (map (\<lambda>i. np_key (xs ! i)) ?js)" using i(2) by auto
    from sorted_last_greatest [OF p(3) this] l h
    show "np_key x \<le> np_key (xs ! hd (rev ?js))" by simp
  qed
qed

lemma greatest_score_unique:
  assumes "a \<in> set xs" and "b \<in> set xs"
    and "\<forall>x \<in> set xs. np_key x \<le> np_key a" and "\<forall>x \<in> set xs. np_key x \<le> np_key b"
  shows "a = b"
  using assms by (intro np_key_inj antisym) auto

lemma float_le_without_nan:
  "a \<noteq> NaN \<Longrightarrow> b \<noteq> NaN \<Longrightarrow> float_le a b = (np_key a \<le> np_key b)"
  by (simp add: float_le_def)

lemma traverse_map:
  "(\<And>x. x \<in> set xs \<Longrightarrow> f x = Inr (g x)) \<Longrightarrow> traverse f xs = Inr (map g xs)"
  by (induction xs) simp_all

lemma getitem_the: "k \<in> fst ` set d \<Longrightarrow> getitem d k = Inr (the (map_of d k))"
  by (cases "map_of d k") (auto simp: getitem_def map_of_eq_None_iff)

text \<open>
  C9, for a prediction with a NaN score. With the scores \<open>[[0.25, NaN, 0.75]]\<close>,
  \<^verbatim>\<open>argsort\<close> puts the index of the NaN last and the in-place sort of the reversed view
  puts the NaN last in that view, which is first in the array: the ranking carries the
  confidences \<open>[NaN, 0.75, 0.25]\<close>, the returned intent is the label of the NaN, and the
  ranking is not in non-increasing order, because \<open>NaN \<ge> 0.75\<close> is false.
\<close>

theorem intent_ranking_with_nan_counterexample:
  "predict_label sample_ext three_label_classifier (Some nan_out) =
     Inr (three_label_classifier, \<lparr>lab_name = Some ''greet'', lab_confidence = NaN\<rparr>,
          [\<lparr>lab_name = Some ''greet'', lab_confidence = NaN\<rparr>,
           \<lparr>lab_name = Some ''thanks'', lab_confidence = Num 0.75\<rparr>,
           \<lparr>lab_name = Some ''bye'', lab_confidence = Num 0.25\<rparr>])
   \<and> \<not> sorted_wrt (\<lambda>a b. float_le b a) [NaN, Num 0.75, Num 0.25]"
proof
  show "predict_label sample_ext three_label_classifier (Some nan_out) =
     Inr (three_label_classifier, \<lparr>lab_name = Some ''greet'', lab_confidence = NaN\<rparr>,
          [\<lparr>lab_name = Some ''greet'', lab_confidence = NaN\<rparr>,
           \<lparr>lab_name = Some ''thanks'', lab_confidence = Num 0.75\<rparr>,
           \<lparr>lab_name = Some ''bye'', lab_confidence = Num 0.25\<rparr>])"
    by (simp add: predict_label_def three_label_classifier_def loaded_classifier_def
        nan_out_def sample_ext_def stable_argsort_def sort_descending_def getitem_def
        and_then_def Let_def)
  show "\<not> sorted_wrt (\<lambda>a b. float_le b a) [NaN, Num 0.75, Num 0.25]"
    by (auto simp: float_le_def)
qed

text \<open>
  C9, amended. Let a model be present, let the prediction hold a non-empty array of
  scores, let the inverted label dictionary have an entry for every index of a score,
  and let \<^verbatim>\<open>argsort\<close> return the indices in an order that sorts the scores, whatever it
  does with equal scores. Then \<^verbatim>\<open>_predict_label\<close> returns; the ranking has at most
  \<open>LABEL_RANKING_LENGTH\<close> entries; its confidences are in NumPy's descending order, NaN
  first; the returned intent carries a score of the array and the name of a label with
  that score; and, when \<open>LABEL_RANKING_LENGTH\<close> is positive, the first entry of the
  ranking is the returned intent. When no score is NaN, the confidences of the ranking
  are in non-increasing order of the floating point comparison, and no score is greater
  than the confidence of the returned intent.
\<close>

theorem intent_ranking_sorted_and_capped:
  assumes "model self \<noteq> None" and "i_scores r = Some scores" and "concat scores \<noteq> []"
    and "inverted_label_dict self = Some d"
    and "\<forall>i < length (concat scores). i \<in> fst ` set d"
    and "is_argsort (argsort ext)"
  shows "\<exists>lbl ranking.
      predict_label ext self (Some r) = Inr (self, lbl, ranking)
    \<and> length ranking \<le> LABEL_RANKING_LENGTH ext
    \<and> sorted_wrt (\<lambda>a b. np_key b \<le> np_key a) (map lab_confidence ranking)
    \<and> (\<exists>i name. i < length (concat scores) \<and> concat scores ! i = lab_confidence lbl
            \<and> getitem d i = Inr name \<and> lab_name lbl = Some name)
    \<and> (0 < LABEL_RANKING_LENGTH ext \<longrightarrow> ranking \<noteq> [] \<and> hd ranking = lbl)
    \<and> (NaN \<notin> set (concat scores) \<longrightarrow>
          sorted_wrt (\<lambda>a b. float_le b a) (map lab_confidence ranking)
        \<and> (\<forall>x \<in> set (concat scores). float_le x (lab_confidence lbl)))"
proof -
  let ?sims = "concat scores"
  let ?lids = "rev (argsort ext ?sims)"
  let ?desc = "sort_descending ?sims"
  let ?cap = "LABEL_RANKING_LENGTH ext"
  let ?ranking = "take ?cap (zip ?lids ?desc)"
  let ?g = "\<lambda>(idx, score). \<lparr>lab_name = Some (the (map_of d idx)), lab_confidence = score\<rparr>"
  let ?f = "\<lambda>(label_idx, score). and_then (getitem d label_idx)
               (\<lambda>n'. Inr \<lparr>lab_name = Some n', lab_confidence = score\<rparr>)"
  let ?lbl = "\<lparr>lab_name = Some (the (map_of d (hd ?lids))), lab_confidence = hd ?desc\<rparr>"
  note p = is_argsort_props [OF assms(6), of ?sims]
  have len: "length ?lids = length ?sims" "length ?desc = length ?sims"
    by (simp_all add: p(1) sort_descending_props(1))
  have ne: "?lids \<noteq> []" "?desc \<noteq> []"
    using assms(3) len by (metis length_0_conv)+
  have lids: "set ?lids = {0 ..< length ?sims}" by (simp add: p(2))
  have key: "getitem d i = Inr (the (map_of d i))" if "i \<in> set ?lids" for i
    using that assms(5) lids by (intro getitem_the) auto
  have hd_in: "hd ?lids \<in> set ?lids" using ne(1) by (rule hd_in_set)
  have f: "?f x = Inr (?g x)" if "x \<in> set ?ranking" for x
  proof -
    obtain idx sc where x: "x = (idx, sc)" by (cases x)
    with that have "(idx, sc) \<in> set (zip ?lids ?desc)" by (auto dest: in_set_takeD)
    then have "idx \<in> set ?lids" by (rule set_zip_leftD)
    from key [OF this] show ?thesis by (simp add: x and_then_def)
  qed
  have tr: "traverse ?f ?ranking = Inr (map ?g ?ranking)"
    using f by (rule traverse_map)
  have res: "predict_label ext self (Some r) = Inr (self, ?lbl, map ?g ?ranking)"
    using assms(1,2,4) ne(1) key [OF hd_in] tr
    by (simp add: predict_label_def Let_def and_then_def)
  have conf: "map lab_confidence (map ?g ?ranking) = take ?cap ?desc"
  proof -
    have "map lab_confidence (map ?g ?ranking) = map snd ?ranking"
      by (simp add: case_prod_beta')
    also have "\<dots> = take ?cap (map snd (zip ?lids ?desc))" by (simp add: take_map)
    also have "map snd (zip ?lids ?desc) = ?desc"
      using len by (intro map_snd_zip) simp
    finally show ?thesis .
  qed
  have cap: "length (map ?g ?ranking) \<le> ?cap" by simp
  have np_sorted: "sorted_wrt (\<lambda>a b. np_key b \<le> np_key a) (map lab_confidence (map ?g ?ranking))"
    unfolding conf by (intro sorted_wrt_take sort_descending_props(3))
  have top: "hd ?desc \<in> set ?sims" "\<forall>x \<in> set ?sims. np_key x \<le> np_key (hd ?desc)"
    using hd_sort_descending [OF assms(3)] by simp_all
  have idx: "hd ?lids < length ?sims" "\<forall>x \<in> set ?sims. np_key x \<le> np_key (?sims ! hd ?lids)"
    using hd_rev_argsort [OF assms(6,3)] by simp_all
  have "?sims ! hd ?lids \<in> set ?sims" using idx(1) by (rule nth_mem)
  then have same: "?sims ! hd ?lids = hd ?desc"
    using top(1) idx(2) top(2) by (rule greatest_score_unique)
  have nm: "\<exists>i name. i < length ?sims \<and> ?sims ! i = lab_confidence ?lbl
              \<and> getitem d i = Inr name \<and> lab_name ?lbl = Some name"
    using idx(1) same key [OF hd_in] by (intro exI [of _ "hd ?lids"]) simp
  have first: "map ?g ?ranking \<noteq> [] \<and> hd (map ?g ?ranking) = ?lbl" if "0 < ?cap"
  proof -
    have z: "zip ?lids ?desc \<noteq> []" using ne by (cases ?lids; cases ?desc) simp_all
    then have r: "?ranking \<noteq> []" using that by simp
    have "hd ?ranking = hd (zip ?lids ?desc)" using that by simp
    also have "\<dots> = (hd ?lids, hd ?desc)" using ne by (cases ?lids; cases ?desc) simp_all
    finally have "hd ?ranking = (hd ?lids, hd ?desc)" .
    with r show ?thesis by (simp add: hd_map)
  qed
  have ieee: "sorted_wrt (\<lambda>a b. float_le b a) (map lab_confidence (map ?g ?ranking))
      \<and> (\<forall>x \<in> set ?sims. float_le x (lab_confidence ?lbl))" if nan: "NaN \<notin> set ?sims"
  proof
    have "set (take ?cap ?desc) \<subseteq> set ?sims"
      using set_take_subset [of ?cap ?desc] by (simp add: sort_descending_props(2))
    then have no: "x \<noteq> NaN" if "x \<in> set (take ?cap ?desc)" for x using that nan by auto
    have "sorted_wrt (\<lambda>a b. np_key b \<le> np_key a) (take ?cap ?desc)"
      using np_sorted unfolding conf .
    then have "sorted_wrt (\<lambda>a b. float_le b a) (take ?cap ?desc)"
      by (rule sorted_wrt_mono_rel [rotated]) (simp add: float_le_without_nan no)
    then show "sorted_wrt (\<lambda>a b. float_le b a) (map lab_confidence (map ?g ?ranking))"
      unfolding conf .
    have "hd ?desc \<noteq> NaN" using top(1) nan by auto
    then show "\<forall>x \<in> set ?sims. float_le x (lab_confidence ?lbl)"
      using top(2) nan by (auto simp: float_le_def)
  qed
  show ?thesis
    apply (rule exI [of _ ?lbl], rule exI [of _ "map ?g ?ranking"])
    apply (intro conjI)
    using res cap np_sorted nm first ieee by blast+
qed

theorem intent_ranking_sorted_and_capped_witness:
  "predict_label sample_ext loaded_classifier (Some sample_out) =
     Inr (loaded_classifier, \<lparr>lab_name = Some ''greet'', lab_confidence = Num 0.8\<rparr>,
          [\<lparr>lab_name = Some ''greet'', lab_confidence = Num 0.8\<rparr>,
           \<lparr>lab_name = Some ''bye'', lab_confidence = Num 0.2\<rparr>])
   \<and> sorted_wrt (\<lambda>a b. float_le b a) [Num 0.8, Num 0.2]"
proof -
  have h: "model loaded_classifier \<noteq> None" "i_scores sample_out = Some [[Num 0.2, Num 0.8]]"
    "concat [[Num 0.2, Num 0.8]] \<noteq> []"
    "inverted_label_dict loaded_classifier = Some [(0, ''bye''), (1, ''greet'')]"
    "\<forall>i < length (concat [[Num 0.2, Num 0.8]]). i \<in> fst ` set [(0::nat, ''bye''), (1, ''greet'')]"
    "is_argsort (argsort sample_ext)"
    by (auto simp: loaded_classifier_def sample_out_def sample_ext_def
        stable_argsort_is_argsort)
  have e: "predict_label sample_ext loaded_classifier (Some sample_out) =
     Inr (loaded_classifier, \<lparr>lab_name = Some ''greet'', lab_confidence = Num 0.8\<rparr>,
          [\<lparr>lab_name = Some ''greet'', lab_confidence = Num 0.8\<rparr>,
           \<lparr>lab_name = Some ''bye'', lab_confidence = Num 0.2\<rparr>])"
    by (simp add: predict_label_def loaded_classifier_def sample_out_def sample_ext_def
        stable_argsort_def sort_descending_def getitem_def and_then_def Let_def)
  from intent_ranking_sorted_and_capped [OF h] e show ?thesis by auto
qed

subsection \<open>The selection mask of the mask loss\<close>

text \<open>
  C3, as the claim states it, fails. In a batch of two sequences of one token each,
  where the draw selected the token of the first sequence only, some entry of the batch
  is selected, so \<^verbatim>\<open>_mask_loss\<close> uses the mask as it is: the mask of the second
  sequence has no true entry.
\<close>

theorem mask_of_second_sequence_empty_counterexample:
  "mask_loss_lm_mask_bool [[[True]], [[False]]] = Inr [[True], [False]]
   \<and> True \<notin> set ([[True], [False]] ! 1)"
  by (simp add: mask_loss_lm_mask_bool_def reduce_any_def and_then_def squeeze_last_def tf_shape_def)

lemma tf_shape_rect:
  assumes "lm \<noteq> []" and "\<forall>seq \<in> set lm. length seq = s \<and> (\<forall>pos \<in> set seq. length pos = 1)"
    and "0 < s"
  shows "tf_shape lm = (length lm, s, 1)"
proof -
  obtain r rs where lm: "lm = r # rs" using assms(1) by (cases lm) auto
  with assms(2) have r: "length r = s" "\<forall>pos \<in> set r. length pos = 1" by auto
  with assms(3) obtain c cs where rc: "r = c # cs" by (cases r) auto
  with r(2) have "length c = 1" by simp
  with lm r(1) rc show ?thesis by (simp add: tf_shape_def)
qed

lemma reduce_any_iff:
  "reduce_any lm \<longleftrightarrow> (\<exists>seq \<in> set lm. \<exists>pos \<in> set seq. \<exists>b \<in> set pos. b)"
  by (simp add: reduce_any_def list_ex_iff)

text \<open>
  C3, amended. For a selection mask of shape \<open>(b, s, 1)\<close> with \<open>b\<close> and \<open>s\<close>
  positive, the mask that \<^verbatim>\<open>_mask_loss\<close> uses has a true entry somewhere in the
  batch. If the draw selected any position of any sequence, the mask is used unchanged;
  if it selected none in the whole batch, position 0 of the first sequence, and it
  alone, is set.
\<close>

theorem mask_has_true_entry_in_batch:
  assumes "lm \<noteq> []" and "\<forall>seq \<in> set lm. length seq = s \<and> (\<forall>pos \<in> set seq. length pos = 1)"
    and "0 < s"
  shows "\<exists>m. mask_loss_lm_mask_bool lm = Inr m
           \<and> (\<exists>seq \<in> set m. True \<in> set seq)
           \<and> (reduce_any lm \<longrightarrow> m = map (map hd) lm)
           \<and> (\<not> reduce_any lm \<longrightarrow>
                m = (True # replicate (s - 1) False) # replicate (length lm - 1) (replicate s False))"
proof (cases "reduce_any lm")
  case True
  have sh: "tf_shape lm = (length lm, s, 1)" using assms by (rule tf_shape_rect)
  have m: "mask_loss_lm_mask_bool lm = Inr (map (map hd) lm)"
    using True sh by (simp add: mask_loss_lm_mask_bool_def and_then_def squeeze_last_def)
  from True obtain seq pos b where sp: "seq \<in> set lm" "pos \<in> set seq" "b \<in> set pos" "b"
    unfolding reduce_any_iff by blast
  with assms(2) have "length pos = 1" by blast
  then obtain b' where "pos = [b']" by (cases pos) auto
  with sp(3,4) have "hd pos = True" by simp
  with sp(2) have "True \<in> set (map hd seq)" by force
  with sp(1) have "\<exists>seq' \<in> set (map (map hd) lm). True \<in> set seq'" by force
  with m True show ?thesis by blast
next
  case False
  have sh: "tf_shape lm = (length lm, s, 1)" using assms by (rule tf_shape_rect)
  let ?t = "([False][0 := True] # replicate (s - 1) [False])
              # replicate (length lm - 1) (replicate s [False])"
  have sc: "scatter_nd_first (length lm, s, 1) = Inr ?t"
    using assms(1,3) by (simp add: scatter_nd_first_def)
  have sh': "tf_shape ?t = (Suc (length lm - 1), Suc (s - 1), 1)"
    by (simp add: tf_shape_def)
  have "squeeze_last ?t = Inr ((True # replicate (s - 1) False)
                                # replicate (length lm - 1) (replicate s False))"
    unfolding squeeze_last_def sh' by (simp add: map_replicate)
  with False sh sc have
    "mask_loss_lm_mask_bool lm = Inr ((True # replicate (s - 1) False)
                                # replicate (length lm - 1) (replicate s False))"
    by (simp add: mask_loss_lm_mask_bool_def and_then_def)
  with False show ?thesis by simp
qed

theorem mask_has_true_entry_in_batch_witness:
  "mask_loss_lm_mask_bool [[[False], [False]], [[False], [False]]] = Inr [[True, False], [False, False]]
   \<and> mask_loss_lm_mask_bool [[[False], [False]], [[False], [True]]] = Inr [[False, False], [False, True]]"
proof -
  have h: "[[[False], [False]], [[False], [False]]] \<noteq> []"
    "\<forall>seq \<in> set [[[False], [False]], [[False], [False]]]. length seq = 2 \<and> (\<forall>pos \<in> set seq. length pos = 1)"
    "0 < (2::nat)"
    by simp_all
  have h2: "[[[False], [False]], [[False], [True]]] \<noteq> []"
    "\<forall>seq \<in> set [[[False], [False]], [[False], [True]]]. length seq = 2 \<and> (\<forall>pos \<in> set seq. length pos = 1)"
    by simp_all
  from mask_has_true_entry_in_batch [OF h] mask_has_true_entry_in_batch [OF h2 h(3)] show ?thesis
    by (simp add: reduce_any_def numeral_2_eq_2)
qed

subsection \<open>Training with fewer than two labels\<close>

lemma init_untrained:
  "EmbeddingIntentClassifier defaults None None None None = Inr untrained_classifier"
  by (simp add: EmbeddingIntentClassifier_def check_config_parameters_def and_then_def defaults_def
      untrained_classifier_def)

lemma one_label_dicts:
  "create_label_id_dict one_label_training_data INTENT_ATTRIBUTE = Inr [(''greet'', 0)]"
  "create_tag_id_dict one_label_training_data = Inr [(''PER'', 1), (''O'', 0)]"
  by (simp_all add: create_label_id_dict_def create_tag_id_dict_def one_label_training_data_def
      greet_example_def hi_example_def sample_message_def is_dict_value_def text_values_def
      sorted_set_def enumerate_from_def dict_of_def and_then_def Let_def)

lemma one_label_label_data:
  "create_label_data one_label_training_data [(''greet'', 0)] INTENT_ATTRIBUTE =
     Inr \<lparr>text_features = [], label_features = [[(1, 1)]], label_ids = [], tag_ids = []\<rparr>"
  by (simp add: create_label_data_def one_label_training_data_def find_example_for_label_def
      greet_example_def hi_example_def sample_message_def compute_default_label_features_def
      empty_model_data_def add_features_def and_then_def Let_def)

lemma one_label_create_model_data:
  "ENTITY_RECOGNITION (component_config self1) \<Longrightarrow>
   label_data self1 = Some \<lparr>text_features = [], label_features = [[(1, 1)]], label_ids = [], tag_ids = []\<rparr> \<Longrightarrow>
   create_model_data sample_ext self1 (training_examples one_label_training_data)
     (Some [(''greet'', 0)]) (Some [(''PER'', 1), (''O'', 0)]) (Some INTENT_ATTRIBUTE) =
   Inr one_label_model_data"
  by (simp add: create_model_data_def one_label_training_data_def one_label_model_data_def
      greet_example_def hi_example_def sample_message_def extract_and_add_features_def
      label_step_def tag_step_def append_some_def getitem_def sample_ext_def
      add_features_def feature_not_exists_def use_default_label_features_def
      and_then_def Let_def)

lemma one_label_preprocess:
  "preprocess_train_data sample_ext (log_msg DEBUG msg_started untrained_classifier)
     one_label_training_data =
   Inr (untrained_classifier
          \<lparr>inverted_label_dict := Some [(0, ''greet'')],
           inverted_tag_dict := Some [(1, ''PER''), (0, ''O'')],
           label_data := Some \<lparr>text_features = [], label_features = [[(1, 1)]],
                                label_ids = [], tag_ids = []\<rparr>,
           num_tags := 2,
           logged := [(DEBUG, msg_started)]\<rparr>, one_label_model_data)"
  by (simp add: preprocess_train_data_def one_label_dicts one_label_label_data
      one_label_create_model_data and_then_def Let_def invert_dict_def dict_of_def
      check_input_dimension_consistency_def log_msg_def untrained_classifier_def defaults_def
      del: One_nat_def)

text \<open>
  C2, as the claim states it, fails. With the default configuration, which enables intent
  classification and entity recognition, and training data with the single intent
  \<open>greet\<close> and an annotated entity, \<^verbatim>\<open>train\<close> logs the error and returns with no
  model at all: the entity recognition has not been trained either.
\<close>

theorem train_skips_entity_training_counterexample:
  "ENTITY_RECOGNITION (component_config untrained_classifier)
   \<and> train sample_ext untrained_classifier one_label_training_data = Inr skipped_classifier
   \<and> model skipped_classifier = None"
proof -
  have "train sample_ext untrained_classifier one_label_training_data = Inr skipped_classifier"
    unfolding train_def Let_def one_label_preprocess
    by (simp add: and_then_def np_random_seed_def check_enough_labels_def
        one_label_model_data_def skipped_classifier_def log_msg_def untrained_classifier_def
        defaults_def)
  then show ?thesis
    by (simp add: skipped_classifier_def untrained_classifier_def defaults_def)
qed

lemma preprocess_train_data_keeps:
  assumes "preprocess_train_data ext self td = Inr (self1, md)"
  shows "component_config self1 = component_config self" "model self1 = model self"
    "predict_func self1 = predict_func self" "data_example self1 = data_example self"
    "logged self1 = logged self"
  using preprocess_train_data_result [OF assms] by auto

lemma np_random_seed_accepts:
  "np_random_seed seed = Inr () \<longleftrightarrow> (\<forall>n. seed = Some n \<longrightarrow> 0 \<le> n \<and> n < 2 ^ 32)"
  by (cases seed) (simp_all add: np_random_seed_def)

lemma train_raises_on_seed_out_of_range:
  assumes "RANDOM_SEED (component_config self) = Some n" and "n < 0 \<or> 2 ^ 32 \<le> n"
  shows "train ext self td = Inl ValueError"
  using assms by (auto simp: train_def Let_def and_then_def np_random_seed_def log_msg_def)

text \<open>
  C2, amended. Let the configured random seed be one that \<^verbatim>\<open>np.random.seed\<close> accepts:
  \<^verbatim>\<open>None\<close> or an integer between 0 and \<open>2**32 - 1\<close>. When the preprocessing returns
  model data with fewer than two distinct label ids and intent classification is
  enabled, \<^verbatim>\<open>train\<close> logs the condition and returns without raising, and it neither
  builds nor fits a model: the model and the stored example are those from before the
  call, so no objective is trained.
\<close>

theorem train_without_two_labels_trains_nothing:
  assumes "preprocess_train_data ext (log_msg DEBUG msg_started self) td = Inr (self1, md)"
    and "INTENT_CLASSIFICATION (component_config self)"
    and "length (remdups (label_ids md)) < 2"
    and "\<forall>n. RANDOM_SEED (component_config self) = Some n \<longrightarrow> 0 \<le> n \<and> n < 2 ^ 32"
  shows "train ext self td = Inr (log_msg ERROR msg_cannot_train self1)
       \<and> model (log_msg ERROR msg_cannot_train self1) = model self
       \<and> data_example (log_msg ERROR msg_cannot_train self1) = data_example self
       \<and> logged (log_msg ERROR msg_cannot_train self1)
           = logged self @ [(DEBUG, msg_started), (ERROR, msg_cannot_train)]"
proof -
  note k = preprocess_train_data_keeps [OF assms(1)]
  have cfg: "INTENT_CLASSIFICATION (component_config self1)"
    using k(1) assms(2) by (simp add: log_msg_def)
  have seed: "np_random_seed (RANDOM_SEED (component_config (log_msg DEBUG msg_started self)))
              = Inr ()"
    using assms(4) by (simp add: np_random_seed_accepts log_msg_def)
  have "train ext self td = Inr (log_msg ERROR msg_cannot_train self1)"
    unfolding train_def Let_def assms(1) seed
    using cfg assms(3) by (simp add: and_then_def check_enough_labels_def)
  then show ?thesis using k by (simp add: log_msg_def)
qed

theorem train_without_two_labels_trains_nothing_witness:
  "train sample_ext untrained_classifier one_label_training_data = Inr skipped_classifier
   \<and> model skipped_classifier = model untrained_classifier
   \<and> logged skipped_classifier = [(DEBUG, msg_started), (ERROR, msg_cannot_train)]"
proof -
  have h: "INTENT_CLASSIFICATION (component_config untrained_classifier)"
    "length (remdups (label_ids one_label_model_data)) < 2"
    "\<forall>n. RANDOM_SEED (component_config untrained_classifier) = Some n \<longrightarrow> 0 \<le> n \<and> n < 2 ^ 32"
    by (simp_all add: untrained_classifier_def defaults_def one_label_model_data_def)
  have e: "log_msg ERROR msg_cannot_train
             (untrained_classifier
                \<lparr>inverted_label_dict := Some [(0, ''greet'')],
                 inverted_tag_dict := Some [(1, ''PER''), (0, ''O'')],
                 label_data := Some \<lparr>text_features = [], label_features = [[(1, 1)]],
                                      label_ids = [], tag_ids = []\<rparr>,
                 num_tags := 2,
                 logged := [(DEBUG, msg_started)]\<rparr>) = skipped_classifier"
    by (simp add: log_msg_def skipped_classifier_def)
  from train_without_two_labels_trains_nothing [OF one_label_preprocess h] show ?thesis
    unfolding e by (simp add: untrained_classifier_def)
qed

lemma train_builds_and_fits_model:
  assumes "preprocess_train_data ext (log_msg DEBUG msg_started self) td = Inr (self1, md)"
    and "\<not> INTENT_CLASSIFICATION (component_config self) \<or> 2 \<le> length (remdups (label_ids md))"
    and "\<forall>n. RANDOM_SEED (component_config self) = Some n \<longrightarrow> 0 \<le> n \<and> n < 2 ^ 32"
  shows "\<exists>self' m. train ext self td = Inr self' \<and> model self' = Some m
            \<and> fit_model_data (last (fit_calls m)) = md
            \<and> predict_func self' = predict_func self"
proof -
  note k = preprocess_train_data_keeps [OF assms(1)]
  have c: "\<not> (INTENT_CLASSIFICATION (component_config self1) \<and> \<not> check_enough_labels md)"
    using k(1) assms(2) by (simp add: log_msg_def check_enough_labels_def)
  have seed: "np_random_seed (RANDOM_SEED (component_config (log_msg DEBUG msg_started self)))
              = Inr ()"
    using assms(3) by (simp add: np_random_seed_accepts log_msg_def)
  show ?thesis
    unfolding train_def Let_def assms(1) seed
    using c k(3) by (auto simp: and_then_def fit_def log_msg_def)
qed

lemma train_keeps_predict_func:
  assumes "train ext self td = Inr self'"
  shows "predict_func self' = predict_func self"
proof (cases "preprocess_train_data ext (log_msg DEBUG msg_started self) td")
  case (Inl e)
  with assms show ?thesis
    by (simp add: train_def and_then_def Let_def split: sum.splits)
next
  case (Inr r)
  obtain self1 md where r: "r = (self1, md)" by (cases r)
  from preprocess_train_data_keeps(3) [OF Inr [unfolded r]]
  have "predict_func self1 = predict_func self" by (simp add: log_msg_def)
  with assms Inr r show ?thesis
    by (auto simp: train_def and_then_def Let_def log_msg_def split: if_splits sum.splits)
qed

subsection \<open>Processing a message\<close>

lemma predict_without_model:
  "model self = None \<or> predict_func self = None \<Longrightarrow> predict ext self message = Inr None"
  by (auto simp: predict_def split: option.splits)

lemma process_without_model:
  assumes "model self = None"
  shows "process ext self message =
     Inr (let self1 = (if INTENT_CLASSIFICATION (component_config self)
                       then log_msg ERROR msg_no_session_label self else self);
              message1 = (if INTENT_CLASSIFICATION (component_config self)
                          then message\<lparr>msg_intent := Some (Dict_value \<lparr>lab_name = None, lab_confidence = Num 0\<rparr>),
                                       msg_intent_ranking := Some []\<rparr>
                          else message)
          in if ENTITY_RECOGNITION (component_config self)
             then (log_msg ERROR msg_no_session_entities self1, message1\<lparr>msg_entities := Some []\<rparr>)
             else (self1, message1))"
  using assms
  by (simp add: process_def predict_without_model predict_label_def predict_entities_def
      and_then_def log_msg_def Let_def)

lemma predict_entities_appends:
  assumes "model self \<noteq> None" and "predict_entities ext self output message = Inr (self', es)"
  shows "\<exists>extracted. es = (case msg_entities message of None \<Rightarrow> [] | Some prior \<Rightarrow> prior) @ extracted"
  using assms
  by (auto simp: predict_entities_def and_then_def split: option.splits list.splits sum.splits)


text \<open>
  C4. A message that carries an entity of another extractor is processed by a classifier
  without a model: \<^verbatim>\<open>_predict_entities\<close> returns the empty list and \<^verbatim>\<open>process\<close>
  stores it, so the entity that the message carried is gone.
\<close>

theorem process_without_model_drops_entities:
  "msg_entities incoming_message =
     Some [\<lparr>ent_entity = Some ''name'', ent_start = 6, ent_end = 9,
            ent_extractor = Some ''SpacyEntityExtractor'', ent_value = Some ''Bob''\<rparr>]
   \<and> process sample_ext untrained_classifier incoming_message =
       Inr (untrained_classifier
              \<lparr>logged := [(ERROR, msg_no_session_label), (ERROR, msg_no_session_entities)]\<rparr>,
            incoming_message
              \<lparr>msg_intent := Some (Dict_value \<lparr>lab_name = None, lab_confidence = Num 0\<rparr>),
               msg_intent_ranking := Some [],
               msg_entities := Some []\<rparr>)"
proof -
  have m: "model untrained_classifier = None" by (simp add: untrained_classifier_def)
  show ?thesis
    unfolding process_without_model [OF m]
    by (simp add: untrained_classifier_def defaults_def incoming_message_def log_msg_def)
qed

lemma process_with_model_without_predict_func:
  assumes "model self \<noteq> None" and "predict_func self = None"
    and "INTENT_CLASSIFICATION (component_config self) \<or> ENTITY_RECOGNITION (component_config self)"
  shows "process ext self message = Inl TypeError"
proof -
  have p: "predict ext self message = Inr None"
    using assms(2) by (simp add: predict_without_model)
  have l: "predict_label ext self None = Inl TypeError"
    using assms(1) by (cases "model self") (simp_all add: predict_label_def Let_def)
  have e: "predict_entities ext self None message' = Inl TypeError" for message'
    using assms(1) by (cases "model self") (simp_all add: predict_entities_def)
  show ?thesis
    using assms(3) by (auto simp: process_def p l e and_then_def)
qed

lemma sample_label_data:
  "create_label_data sample_training_data [(''bye'', 0), (''greet'', 1)] INTENT_ATTRIBUTE =
     Inr \<lparr>text_features = [], label_features = [[(1, 2), (1, 2)]], label_ids = [], tag_ids = []\<rparr>"
  by (simp add: create_label_data_def sample_training_data_def find_example_for_label_def
      greet_example_def bye_example_def sample_message_def compute_default_label_features_def
      empty_model_data_def add_features_def and_then_def Let_def numeral_2_eq_2
      del: One_nat_def)

lemma sample_create_model_data:
  "ENTITY_RECOGNITION (component_config self1) \<Longrightarrow>
   label_data self1 = Some \<lparr>text_features = [], label_features = [[(1, 2), (1, 2)]],
                             label_ids = [], tag_ids = []\<rparr> \<Longrightarrow>
   create_model_data sample_ext self1 (training_examples sample_training_data)
     (Some [(''bye'', 0), (''greet'', 1)]) (Some [(''PER'', 1), (''O'', 0)]) (Some INTENT_ATTRIBUTE) =
   Inr sample_model_data"
  by (simp add: create_model_data_def sample_training_data_def sample_model_data_def
      greet_example_def bye_example_def sample_message_def extract_and_add_features_def
      label_step_def tag_step_def append_some_def getitem_def sample_ext_def
      add_features_def feature_not_exists_def use_default_label_features_def
      and_then_def Let_def)

lemma sample_preprocess:
  "preprocess_train_data sample_ext (log_msg DEBUG msg_started untrained_classifier)
     sample_training_data =
   Inr (untrained_classifier
          \<lparr>inverted_label_dict := Some [(0, ''bye''), (1, ''greet'')],
           inverted_tag_dict := Some [(1, ''PER''), (0, ''O'')],
           label_data := Some \<lparr>text_features = [], label_features = [[(1, 2), (1, 2)]],
                                label_ids = [], tag_ids = []\<rparr>,
           num_tags := 2,
           logged := [(DEBUG, msg_started)]\<rparr>, sample_model_data)"
  by (simp add: preprocess_train_data_def sample_label_id_dict sample_tag_id_dict sample_label_data
      sample_create_model_data and_then_def Let_def invert_dict_def dict_of_def
      check_input_dimension_consistency_def log_msg_def untrained_classifier_def defaults_def
      del: One_nat_def)

lemma sample_train:
  "train sample_ext untrained_classifier sample_training_data = Inr trained_classifier"
  unfolding train_def Let_def sample_preprocess
  by (simp add: and_then_def np_random_seed_def check_enough_labels_def sample_model_data_def
      trained_classifier_def untrained_classifier_def defaults_def log_msg_def)

text \<open>
  C7. The classifier that \<^verbatim>\<open>train\<close> returns for the sample training data has a model
  and no prediction function. \<^verbatim>\<open>_predict\<close> then returns \<^verbatim>\<open>None\<close>, and
  \<^verbatim>\<open>_predict_label\<close>, which tests the model only, subscripts it: \<^verbatim>\<open>process\<close> raises
  \<open>TypeError\<close>.
\<close>

theorem process_after_train_raises:
  "train sample_ext untrained_classifier sample_training_data = Inr trained_classifier
   \<and> process sample_ext trained_classifier incoming_message = Inl TypeError"
proof -
  have "model trained_classifier \<noteq> None" "predict_func trained_classifier = None"
    "INTENT_CLASSIFICATION (component_config trained_classifier)"
    by (simp_all add: trained_classifier_def untrained_classifier_def defaults_def)
  then have "process sample_ext trained_classifier incoming_message = Inl TypeError"
    by (intro process_with_model_without_predict_func) simp_all
  with sample_train show ?thesis by simp
qed

end
